theory Spec2Isabelle
  imports Main
begin

section \<open>libsmartctl: the client over the smartmontools device layer\<close>

text \<open>
  A shallow embedding of \<^verbatim>\<open>libsmartctl.cpp\<close>: the error catalog \<^verbatim>\<open>errStr\<close>, the
  constructor of \<^verbatim>\<open>Client::Impl\<close>, the device acquisition \<^verbatim>\<open>initDevice\<close> and the three
  operations \<^verbatim>\<open>cantIdDev\<close>, \<^verbatim>\<open>getDevInfo\<close> and \<^verbatim>\<open>getDevVendorAttrs\<close>.

  Everything the file calls but does not define (the device interface, the drive database,
  the ATA routines, the default constructors of the response and option types) is a field
  of one record of collaborators, over which every theorem is universally quantified.
  Each operation returns, next to its response, the list of collaborator calls it made,
  in order, so that "is never called" is a statement about that list. The methods of
  \<^verbatim>\<open>Client\<close> pass their arguments to the methods of \<^verbatim>\<open>Client::Impl\<close> of the same
  name and return what those return.
\<close>

subsection \<open>Error codes\<close>

datatype ctlerr_t =
    NOERR
  | POWERMODEBELOWOPTION
  | FAILEDDEVICEIDREAD
  | FAILEDSMARTCMD
  | GETDEVICERR
  | DEVICEOPENERR
  | UNSUPPORTEDDEVICETYPE
  | CLIENTINITIALIZTIONFAILURE

text \<open>
  What C++ does where the model needs a branch for it: \<^verbatim>\<open>std::map::at\<close> throws
  \<^verbatim>\<open>std::out_of_range\<close>, \<^verbatim>\<open>check_config\<close> may throw, and \<^verbatim>\<open>device->\<close> on an empty
  \<^verbatim>\<open>smart_device_auto_ptr\<close> dereferences a null pointer.
\<close>

datatype fault = Out_of_range | Logic_error | Null_dereference

text \<open>
  Modelled from the spec: the declaration of the enumeration \<^verbatim>\<open>ctlerr_t\<close> is in
  \<^verbatim>\<open>libsmartctl.h\<close>, which is not among the sources. The enumerators are taken in the
  order in which the data model of the spec lists them, numbered from 0 as C++ numbers
  enumerators without initialisers. A \<^verbatim>\<open>ctlerr_t\<close> object can hold an integer that is
  no enumerator (after a cast), so the key of the catalog is the integer.
\<close>

fun ctlerr_value :: "ctlerr_t \<Rightarrow> int" where
  "ctlerr_value NOERR = 0"
| "ctlerr_value POWERMODEBELOWOPTION = 1"
| "ctlerr_value FAILEDDEVICEIDREAD = 2"
| "ctlerr_value FAILEDSMARTCMD = 3"
| "ctlerr_value GETDEVICERR = 4"
| "ctlerr_value DEVICEOPENERR = 5"
| "ctlerr_value UNSUPPORTEDDEVICETYPE = 6"
| "ctlerr_value CLIENTINITIALIZTIONFAILURE = 7"

subsection \<open>The error catalog\<close>

text \<open>The static table of \<^verbatim>\<open>errStr\<close>, in the order of its initialiser list.\<close>

definition errs :: "(int \<times> string) list" where
  "errs =
    [(ctlerr_value NOERR, ''No errors''),
     (ctlerr_value POWERMODEBELOWOPTION, ''The power mode is below the configured option''),
     (ctlerr_value FAILEDDEVICEIDREAD, ''Device read failure''),
     (ctlerr_value FAILEDSMARTCMD, ''Test SMART command failed''),
     (ctlerr_value GETDEVICERR, ''Could not retrieve device information''),
     (ctlerr_value DEVICEOPENERR, ''Could not open device''),
     (ctlerr_value UNSUPPORTEDDEVICETYPE, ''Device type is not supported''),
     (ctlerr_value CLIENTINITIALIZTIONFAILURE, ''libsmartctl client initialization failure'')]"

text \<open>\<^verbatim>\<open>return errs.at(err)\<close>: the entry of the key, or the exception of \<^verbatim>\<open>at\<close>.\<close>

definition errStr :: "int \<Rightarrow> fault + string" where
  "errStr err = (case map_of errs err of None \<Rightarrow> Inl Out_of_range | Some s \<Rightarrow> Inr s)"

subsection \<open>Responses, options and collaborators\<close>

text \<open>
  \<^verbatim>\<open>CantIdDevResp\<close>, \<^verbatim>\<open>DevInfoResp\<close> and \<^verbatim>\<open>DevVendorAttrsResp\<close>: the two members
  \<^verbatim>\<open>content\<close> and \<^verbatim>\<open>err\<close> that the file reads and writes.
\<close>

record 'c ctlresp_t =
  content :: 'c
  err :: ctlerr_t

text \<open>The two members of \<^verbatim>\<open>ata_print_options\<close> that the file writes.\<close>

record ata_print_options =
  drive_info :: bool
  smart_vendor_attrib :: bool

text \<open>
  A call of a collaborator, with its arguments: \<^typ>\<open>'d\<close> is a device object,
  \<^typ>\<open>'a\<close> what \<^verbatim>\<open>to_ata\<close> returns.
\<close>

datatype ('d, 'a) call =
    Check_config
  | Smart_interface_init
  | Init_drive_database bool
  | Get_smart_device string "string option"
  | Autodetect_open 'd
  | Is_open 'd
  | Is_ata 'd
  | To_ata 'd
  | Cant_id 'a
  | Get_ata_information 'a ata_print_options
  | Get_ata_vendor_attr 'a ata_print_options

text \<open>
  The collaborators. None of them is defined in the file, so each is a parameter:
  \<^item> \<open>check_config\<close>: \<open>None\<close> when the call returns, \<open>Some f\<close> when it throws;
  \<^item> \<open>smi\<close>: whether \<^verbatim>\<open>smi()\<close> is non-null after \<^verbatim>\<open>smart_interface::init()\<close>;
  \<^item> \<open>get_smart_device name type\<close>: \<open>type\<close> is \<open>None\<close> for \<^verbatim>\<open>nullptr\<close>; the result is
    \<open>None\<close> for a null device pointer;
  \<^item> \<open>autodetect_open\<close>: the device object that \<^verbatim>\<open>device.replace\<close> then holds;
  \<^item> \<open>get_ata_information\<close> and \<open>get_ata_vendor_attr\<close> receive the content by reference:
    they take it as it is and return the code together with the content as they leave it;
  \<^item> \<open>CantIdDevResp_new\<close>, \<open>DevInfoResp_new\<close>, \<open>DevVendorAttrsResp_new\<close> and
    \<open>ata_print_options_new\<close>: the default-constructed objects (the types are declared in
    headers that are not among the sources).
\<close>

record ('d, 'a, 'i, 'v) collaborators =
  check_config :: "fault option"
  smi :: bool
  init_drive_database :: "bool \<Rightarrow> bool"
  get_smart_device :: "string \<Rightarrow> string option \<Rightarrow> 'd option"
  autodetect_open :: "'d \<Rightarrow> 'd"
  is_open :: "'d \<Rightarrow> bool"
  is_ata :: "'d \<Rightarrow> bool"
  to_ata :: "'d \<Rightarrow> 'a"
  cant_id :: "'a \<Rightarrow> bool"
  get_ata_information :: "'i \<Rightarrow> 'a \<Rightarrow> ata_print_options \<Rightarrow> ctlerr_t \<times> 'i"
  get_ata_vendor_attr :: "'v \<Rightarrow> 'a \<Rightarrow> ata_print_options \<Rightarrow> ctlerr_t \<times> 'v"
  CantIdDevResp_new :: "bool ctlresp_t"
  DevInfoResp_new :: "'i ctlresp_t"
  DevVendorAttrsResp_new :: "'v ctlresp_t"
  ata_print_options_new :: ata_print_options

subsection \<open>The runtime and its constructor\<close>

text \<open>
  The object has the one member \<^verbatim>\<open>up_\<close>, here \<open>up\<close> (a name cannot end with an
  underscore).
\<close>

record Impl =
  up :: bool

text \<open>
  \<^verbatim>\<open>Impl()\<close>: the constructed object and the calls made, or the exception of
  \<^verbatim>\<open>check_config\<close>, which leaves no object.
\<close>

definition Impl_ctor :: "('d, 'a, 'i, 'v) collaborators \<Rightarrow> fault + (Impl \<times> ('d, 'a) call list)" where
  "Impl_ctor X =
    (case check_config X of
       Some f \<Rightarrow> Inl f
     | None \<Rightarrow>
        if \<not> smi X then Inr (\<lparr>up = False\<rparr>, [Check_config, Smart_interface_init])
        else if \<not> init_drive_database X False
          then Inr (\<lparr>up = False\<rparr>, [Check_config, Smart_interface_init, Init_drive_database False])
          else Inr (\<lparr>up = True\<rparr>, [Check_config, Smart_interface_init, Init_drive_database False]))"

subsection \<open>Device acquisition\<close>

text \<open>
  \<^verbatim>\<open>std::string::c_str()\<close> read as a C string, which is how \<^verbatim>\<open>get_smart_device\<close> takes
  its two \<^verbatim>\<open>const char *\<close> arguments: the characters before the first NUL.
\<close>

definition c_str :: "string \<Rightarrow> string" where
  "c_str s = takeWhile (\<lambda>c. c \<noteq> CHR 0x00) s"

text \<open>
  \<^verbatim>\<open>initDevice(device, devname, type)\<close>: the code returned, the device object left in
  \<^verbatim>\<open>device\<close> (\<open>None\<close> for null), and the calls made.
\<close>

definition initDevice ::
  "('d, 'a, 'i, 'v) collaborators \<Rightarrow> string \<Rightarrow> string \<Rightarrow> (ctlerr_t \<times> 'd option) \<times> ('d, 'a) call list" where
  "initDevice X devname type =
    (let hint = (if type \<noteq> '''' then Some (c_str type) else None);
         device = get_smart_device X (c_str devname) hint;
         calls = [Get_smart_device (c_str devname) hint]
     in case device of
          None \<Rightarrow> ((GETDEVICERR, None), calls)
        | Some d \<Rightarrow>
            (let d' = autodetect_open X d;
                 calls = calls @ [Autodetect_open d, Is_open d']
             in if \<not> is_open X d' then ((DEVICEOPENERR, Some d'), calls)
                else ((NOERR, Some d'), calls)))"

subsection \<open>The three operations\<close>

definition cantIdDev ::
  "('d, 'a, 'i, 'v) collaborators \<Rightarrow> Impl \<Rightarrow> string \<Rightarrow> string
     \<Rightarrow> fault + (bool ctlresp_t \<times> ('d, 'a) call list)" where
  "cantIdDev X this devname type =
    (let resp = CantIdDevResp_new X
     in if \<not> up this then Inr (resp\<lparr>err := CLIENTINITIALIZTIONFAILURE\<rparr>, [])
        else
          (let ((e, device), calls) = initDevice X devname type
           in case e of
                NOERR \<Rightarrow>
                  (let resp = resp\<lparr>err := NOERR\<rparr>
                   in case device of
                        None \<Rightarrow> Inl Null_dereference
                      | Some d \<Rightarrow>
                          if is_ata X d
                          then Inr (resp\<lparr>content := cant_id X (to_ata X d)\<rparr>,
                                    calls @ [Is_ata d, To_ata d, Cant_id (to_ata X d)])
                          else Inr (resp\<lparr>err := UNSUPPORTEDDEVICETYPE\<rparr>, calls @ [Is_ata d]))
              | DEVICEOPENERR \<Rightarrow> Inr (resp\<lparr>err := NOERR, content := True\<rparr>, calls)
              | _ \<Rightarrow> Inr (resp\<lparr>err := e\<rparr>, calls)))"

text \<open>
  In the next two operations the locals \<^verbatim>\<open>scsiopts\<close> and \<^verbatim>\<open>nvmeopts\<close> are written once
  and never read; only \<^verbatim>\<open>ataopts\<close> leaves the function.
\<close>

definition getDevInfo ::
  "('d, 'a, 'i, 'v) collaborators \<Rightarrow> Impl \<Rightarrow> string \<Rightarrow> string
     \<Rightarrow> fault + ('i ctlresp_t \<times> ('d, 'a) call list)" where
  "getDevInfo X this devname type =
    (let resp = DevInfoResp_new X
     in if \<not> up this then Inr (resp\<lparr>err := CLIENTINITIALIZTIONFAILURE\<rparr>, [])
        else
          (let ataopts = (ata_print_options_new X)\<lparr>drive_info := True\<rparr>;
               ((e, device), calls) = initDevice X devname type;
               resp = resp\<lparr>err := e\<rparr>
           in if err resp \<noteq> NOERR then Inr (resp, calls)
              else case device of
                     None \<Rightarrow> Inl Null_dereference
                   | Some d \<Rightarrow>
                       if is_ata X d
                       then (let (e', c') = get_ata_information X (content resp) (to_ata X d) ataopts
                             in Inr (resp\<lparr>content := c', err := e'\<rparr>,
                                     calls @ [Is_ata d, To_ata d,
                                              Get_ata_information (to_ata X d) ataopts]))
                       else Inr (resp\<lparr>err := UNSUPPORTEDDEVICETYPE\<rparr>, calls @ [Is_ata d])))"

definition getDevVendorAttrs ::
  "('d, 'a, 'i, 'v) collaborators \<Rightarrow> Impl \<Rightarrow> string \<Rightarrow> string
     \<Rightarrow> fault + ('v ctlresp_t \<times> ('d, 'a) call list)" where
  "getDevVendorAttrs X this devname type =
    (let resp = DevVendorAttrsResp_new X
     in if \<not> up this then Inr (resp\<lparr>err := CLIENTINITIALIZTIONFAILURE\<rparr>, [])
        else
          (let ataopts = (ata_print_options_new X)\<lparr>smart_vendor_attrib := True\<rparr>;
               ((e, device), calls) = initDevice X devname type;
               resp = resp\<lparr>err := e\<rparr>
           in if err resp \<noteq> NOERR then Inr (resp, calls)
              else case device of
                     None \<Rightarrow> Inl Null_dereference
                   | Some d \<Rightarrow>
                       if is_ata X d
                       then (let (e', c') = get_ata_vendor_attr X (content resp) (to_ata X d) ataopts
                             in Inr (resp\<lparr>content := c', err := e'\<rparr>,
                                     calls @ [Is_ata d, To_ata d,
                                              Get_ata_vendor_attr (to_ata X d) ataopts]))
                       else Inr (resp\<lparr>err := UNSUPPORTEDDEVICETYPE\<rparr>, calls @ [Is_ata d])))"

subsection \<open>A test bench\<close>

text \<open>
  One concrete set of collaborators, on which the theorems below are instantiated.
  Device objects and ATA handles are numbers. \<^verbatim>\<open>/dev/sda\<close> is an ATA disk: object 0,
  replaced by object 1 when opened. \<^verbatim>\<open>/dev/sdb\<close> resolves to object 2 and does not open.
  \<^verbatim>\<open>/dev/sdc\<close> opens (object 4, replaced by 5) and is not ATA. No other name resolves.
  The information extractor adds an entry to the content and then reports a failed command.
\<close>

definition bench :: "(nat, nat, (string \<times> string) list, (string \<times> string) list list) collaborators" where
  "bench =
    \<lparr>check_config = None,
     smi = True,
     init_drive_database = (\<lambda>use_default_db. True),
     get_smart_device = (\<lambda>name type.
        if name = ''/dev/sda'' then Some 0
        else if name = ''/dev/sdb'' then Some 2
        else if name = ''/dev/sdc'' then Some 4
        else None),
     autodetect_open = (\<lambda>d. if d = 0 then 1 else if d = 4 then 5 else d),
     is_open = (\<lambda>d. d = 1 \<or> d = 5),
     is_ata = (\<lambda>d. d = 1),
     to_ata = (\<lambda>d. d + 10),
     cant_id = (\<lambda>a. a = 11),
     get_ata_information = (\<lambda>c a opts. (FAILEDSMARTCMD, (''model'', ''unknown'') # c)),
     get_ata_vendor_attr = (\<lambda>c a opts. (NOERR, [(''id'', ''5'')] # c)),
     CantIdDevResp_new = \<lparr>content = False, err = NOERR\<rparr>,
     DevInfoResp_new = \<lparr>content = [], err = NOERR\<rparr>,
     DevVendorAttrsResp_new = \<lparr>content = [], err = NOERR\<rparr>,
     ata_print_options_new = \<lparr>drive_info = False, smart_vendor_attrib = False\<rparr>\<rparr>"

section \<open>Properties\<close>

subsection \<open>Auxiliary facts\<close>

lemma bench_simps:
  "check_config bench = None"
  "smi bench"
  "init_drive_database bench b"
  "get_smart_device bench name type =
     (if name = ''/dev/sda'' then Some 0
      else if name = ''/dev/sdb'' then Some 2
      else if name = ''/dev/sdc'' then Some 4
      else None)"
  "autodetect_open bench d = (if d = 0 then 1 else if d = 4 then 5 else d)"
  "is_open bench d \<longleftrightarrow> d = 1 \<or> d = 5"
  "is_ata bench d \<longleftrightarrow> d = 1"
  "to_ata bench d = d + 10"
  "cant_id bench a \<longleftrightarrow> a = 11"
  "get_ata_information bench c a opts = (FAILEDSMARTCMD, (''model'', ''unknown'') # c)"
  "get_ata_vendor_attr bench v a opts = (NOERR, [(''id'', ''5'')] # v)"
  "CantIdDevResp_new bench = \<lparr>content = False, err = NOERR\<rparr>"
  "DevInfoResp_new bench = \<lparr>content = [], err = NOERR\<rparr>"
  "DevVendorAttrsResp_new bench = \<lparr>content = [], err = NOERR\<rparr>"
  "ata_print_options_new bench = \<lparr>drive_info = False, smart_vendor_attrib = False\<rparr>"
  by (simp_all add: bench_def)

lemma range_ctlerr_value: "range ctlerr_value = {0..7}"
proof
  show "range ctlerr_value \<subseteq> {0..7}"
  proof
    fix k assume "k \<in> range ctlerr_value"
    then obtain e where "k = ctlerr_value e" by blast
    then show "k \<in> {0..7}" by (cases e) simp_all
  qed
  show "{0..7} \<subseteq> range ctlerr_value"
  proof
    fix k :: int assume "k \<in> {0..7}"
    then have "k = 0 \<or> k = 1 \<or> k = 2 \<or> k = 3 \<or> k = 4 \<or> k = 5 \<or> k = 6 \<or> k = 7"
      by auto
    then show "k \<in> range ctlerr_value"
      by (metis ctlerr_value.simps rangeI)
  qed
qed

lemma errStr_enum: "\<exists>s. errStr (ctlerr_value e) = Inr s \<and> s \<noteq> []"
  by (cases e) (simp_all add: errStr_def errs_def)

lemma errStr_outside: "k \<notin> range ctlerr_value \<Longrightarrow> errStr k = Inl Out_of_range"
  by (auto simp: range_ctlerr_value errStr_def errs_def)

lemma c_str_no_NUL: "CHR 0x00 \<notin> set s \<Longrightarrow> c_str s = s"
  by (auto simp: c_str_def takeWhile_eq_all_conv)

text \<open>The three ways out of \<open>initDevice\<close>, in terms of what the device interface answers.\<close>

lemma initDevice_null:
  assumes "get_smart_device X (c_str devname) (if type \<noteq> '''' then Some (c_str type) else None) = None"
  shows "initDevice X devname type =
    ((GETDEVICERR, None),
     [Get_smart_device (c_str devname) (if type \<noteq> '''' then Some (c_str type) else None)])"
  using assms by (simp add: initDevice_def)

lemma initDevice_not_open:
  assumes "get_smart_device X (c_str devname) (if type \<noteq> '''' then Some (c_str type) else None) = Some d"
    and "\<not> is_open X (autodetect_open X d)"
  shows "initDevice X devname type =
    ((DEVICEOPENERR, Some (autodetect_open X d)),
     [Get_smart_device (c_str devname) (if type \<noteq> '''' then Some (c_str type) else None),
      Autodetect_open d, Is_open (autodetect_open X d)])"
  using assms by (simp add: initDevice_def Let_def)

lemma initDevice_open:
  assumes "get_smart_device X (c_str devname) (if type \<noteq> '''' then Some (c_str type) else None) = Some d"
    and "is_open X (autodetect_open X d)"
  shows "initDevice X devname type =
    ((NOERR, Some (autodetect_open X d)),
     [Get_smart_device (c_str devname) (if type \<noteq> '''' then Some (c_str type) else None),
      Autodetect_open d, Is_open (autodetect_open X d)])"
  using assms by (simp add: initDevice_def Let_def)

lemma initDevice_first_call:
  "\<exists>rest. snd (initDevice X devname type) =
      Get_smart_device (c_str devname) (if type \<noteq> '''' then Some (c_str type) else None) # rest"
  by (simp add: initDevice_def Let_def split: option.splits)

lemma initDevice_codes:
  "fst (fst (initDevice X devname type)) \<in> {NOERR, GETDEVICERR, DEVICEOPENERR}"
  by (simp add: initDevice_def Let_def split: option.splits)

lemma initDevice_GETDEVICERR_iff:
  "fst (fst (initDevice X devname type)) = GETDEVICERR \<longleftrightarrow>
     get_smart_device X (c_str devname) (if type \<noteq> '''' then Some (c_str type) else None) = None"
  by (simp add: initDevice_def Let_def split: option.splits)

lemma initDevice_DEVICEOPENERR_iff:
  "fst (fst (initDevice X devname type)) = DEVICEOPENERR \<longleftrightarrow>
     (\<exists>d. get_smart_device X (c_str devname) (if type \<noteq> '''' then Some (c_str type) else None) = Some d
        \<and> \<not> is_open X (autodetect_open X d))"
  by (simp add: initDevice_def Let_def split: option.splits)

text \<open>
  No operation ends in a fault: \<open>initDevice\<close> returns \<open>NOERR\<close> only with a device object,
  so the null dereference is never reached. An operation that is up makes the calls of
  \<open>initDevice\<close> first.
\<close>

lemma cantIdDev_calls:
  "up this \<Longrightarrow>
     \<exists>r rest. cantIdDev X this devname type = Inr (r, snd (initDevice X devname type) @ rest)"
  by (auto simp: cantIdDev_def initDevice_def Let_def split: option.splits ctlerr_t.splits)

lemma getDevInfo_calls:
  "up this \<Longrightarrow>
     \<exists>r rest. getDevInfo X this devname type = Inr (r, snd (initDevice X devname type) @ rest)"
  by (auto simp: getDevInfo_def initDevice_def Let_def split: option.splits prod.splits)

lemma getDevVendorAttrs_calls:
  "up this \<Longrightarrow>
     \<exists>r rest. getDevVendorAttrs X this devname type =
       Inr (r, snd (initDevice X devname type) @ rest)"
  by (auto simp: getDevVendorAttrs_def initDevice_def Let_def split: option.splits prod.splits)

lemma cantIdDev_total: "\<exists>r calls. cantIdDev X this devname type = Inr (r, calls)"
  by (auto simp: cantIdDev_def initDevice_def Let_def split: option.splits ctlerr_t.splits)

lemma getDevInfo_total: "\<exists>r calls. getDevInfo X this devname type = Inr (r, calls)"
  by (auto simp: getDevInfo_def initDevice_def Let_def split: option.splits prod.splits)

lemma getDevVendorAttrs_total: "\<exists>r calls. getDevVendorAttrs X this devname type = Inr (r, calls)"
  by (auto simp: getDevVendorAttrs_def initDevice_def Let_def split: option.splits prod.splits)

text \<open>The content that comes with a code other than \<open>NOERR\<close>.\<close>

lemma cantIdDev_error_content:
  "cantIdDev X this devname type = Inr (r, calls) \<Longrightarrow> err r \<noteq> NOERR
   \<Longrightarrow> content r = content (CantIdDevResp_new X)"
  by (auto simp: cantIdDev_def initDevice_def Let_def split: option.splits if_splits)

lemma getDevInfo_error_content:
  "getDevInfo X this devname type = Inr (r, calls) \<Longrightarrow> err r \<noteq> NOERR
   \<Longrightarrow> \<forall>a opts. Get_ata_information a opts \<notin> set calls
   \<Longrightarrow> content r = content (DevInfoResp_new X)"
  by (auto simp: getDevInfo_def initDevice_def Let_def split: option.splits if_splits prod.splits)

lemma getDevInfo_extractor:
  "getDevInfo X this devname type = Inr (r, calls) \<Longrightarrow> Get_ata_information a opts \<in> set calls
   \<Longrightarrow> (err r, content r) = get_ata_information X (content (DevInfoResp_new X)) a opts"
  by (auto simp: getDevInfo_def initDevice_def Let_def split: option.splits if_splits prod.splits)

lemma getDevVendorAttrs_error_content:
  "getDevVendorAttrs X this devname type = Inr (r, calls) \<Longrightarrow> err r \<noteq> NOERR
   \<Longrightarrow> \<forall>a opts. Get_ata_vendor_attr a opts \<notin> set calls
   \<Longrightarrow> content r = content (DevVendorAttrsResp_new X)"
  by (auto simp: getDevVendorAttrs_def initDevice_def Let_def
      split: option.splits if_splits prod.splits)

lemma getDevVendorAttrs_extractor:
  "getDevVendorAttrs X this devname type = Inr (r, calls) \<Longrightarrow> Get_ata_vendor_attr a opts \<in> set calls
   \<Longrightarrow> (err r, content r) = get_ata_vendor_attr X (content (DevVendorAttrsResp_new X)) a opts"
  by (auto simp: getDevVendorAttrs_def initDevice_def Let_def
      split: option.splits if_splits prod.splits)

subsection \<open>The error catalog\<close>

text \<open>
  C9. For every value of the enumeration, \<open>errStr\<close> returns a description, and the
  description is not empty. For an integer that is the value of no enumerator, \<open>errStr\<close>
  returns no string: the lookup ends in the exception of \<^verbatim>\<open>std::map::at\<close>.
\<close>

theorem errStr_catalog:
  "(\<forall>e. \<exists>s. errStr (ctlerr_value e) = Inr s \<and> s \<noteq> [])
   \<and> (\<forall>k. k \<notin> range ctlerr_value \<longrightarrow> errStr k = Inl Out_of_range)"
  using errStr_enum errStr_outside by blast

theorem errStr_catalog_witness:
  "(\<exists>s. errStr (ctlerr_value DEVICEOPENERR) = Inr s \<and> s \<noteq> [])
   \<and> 8 \<notin> range ctlerr_value \<and> errStr 8 = Inl Out_of_range"
proof -
  have h: "8 \<notin> range ctlerr_value" by (simp add: range_ctlerr_value)
  from errStr_catalog have "\<exists>s. errStr (ctlerr_value DEVICEOPENERR) = Inr s \<and> s \<noteq> []" by blast
  moreover from errStr_catalog h have "errStr 8 = Inl Out_of_range" by blast
  ultimately show ?thesis using h by blast
qed

subsection \<open>The constructor\<close>

text \<open>
  C8. When \<open>check_config\<close> returns, the constructor initialises the device interface
  first. If no interface is registered after that, the object is marked not up and the
  drive database is never initialised. If an interface is registered, the database is
  initialised next (with argument \<open>False\<close>); if that fails the object is marked not up.
  The object is marked up exactly when both steps succeed, and the database
  initialisation is among the calls exactly when an interface was registered.
\<close>

theorem Impl_ctor_order:
  assumes "check_config X = None"
  shows "(\<not> smi X \<longrightarrow>
            Impl_ctor X = Inr (\<lparr>up = False\<rparr>, [Check_config, Smart_interface_init]))
    \<and> (smi X \<and> \<not> init_drive_database X False \<longrightarrow>
            Impl_ctor X =
              Inr (\<lparr>up = False\<rparr>, [Check_config, Smart_interface_init, Init_drive_database False]))
    \<and> (smi X \<and> init_drive_database X False \<longrightarrow>
            Impl_ctor X =
              Inr (\<lparr>up = True\<rparr>, [Check_config, Smart_interface_init, Init_drive_database False]))
    \<and> (\<forall>this calls. Impl_ctor X = Inr (this, calls) \<longrightarrow>
            (up this \<longleftrightarrow> smi X \<and> init_drive_database X False)
            \<and> ((\<exists>b. Init_drive_database b \<in> set calls) \<longleftrightarrow> smi X))"
  using assms by (auto simp: Impl_ctor_def)

theorem Impl_ctor_order_witness:
  "check_config bench = None \<and> smi bench \<and> init_drive_database bench False
   \<and> Impl_ctor bench =
       Inr (\<lparr>up = True\<rparr>, [Check_config, Smart_interface_init, Init_drive_database False])
   \<and> (up \<lparr>up = True\<rparr> \<longleftrightarrow> smi bench \<and> init_drive_database bench False)
   \<and> check_config (bench\<lparr>smi := False\<rparr>) = None \<and> \<not> smi (bench\<lparr>smi := False\<rparr>)
   \<and> Impl_ctor (bench\<lparr>smi := False\<rparr>) =
       Inr (\<lparr>up = False\<rparr>, [Check_config, Smart_interface_init])
   \<and> check_config (bench\<lparr>init_drive_database := \<lambda>b. b\<rparr>) = None
   \<and> smi (bench\<lparr>init_drive_database := \<lambda>b. b\<rparr>)
   \<and> \<not> init_drive_database (bench\<lparr>init_drive_database := \<lambda>b. b\<rparr>) False
   \<and> Impl_ctor (bench\<lparr>init_drive_database := \<lambda>b. b\<rparr>) =
       Inr (\<lparr>up = False\<rparr>, [Check_config, Smart_interface_init, Init_drive_database False])"
proof -
  have a1: "check_config bench = None" by (simp add: bench_def)
  have a2: "smi bench" by (simp add: bench_def)
  have a3: "init_drive_database bench False" by (simp add: bench_def)
  have b1: "check_config (bench\<lparr>smi := False\<rparr>) = None" by (simp add: bench_def)
  have b2: "\<not> smi (bench\<lparr>smi := False\<rparr>)" by simp
  have c1: "check_config (bench\<lparr>init_drive_database := \<lambda>b. b\<rparr>) = None"
    by (simp add: bench_def)
  have c2: "smi (bench\<lparr>init_drive_database := \<lambda>b. b\<rparr>)" by (simp add: bench_def)
  have c3: "\<not> init_drive_database (bench\<lparr>init_drive_database := \<lambda>b. b\<rparr>) False" by simp
  from Impl_ctor_order [OF a1] a2 a3
  have ra: "Impl_ctor bench =
       Inr (\<lparr>up = True\<rparr>, [Check_config, Smart_interface_init, Init_drive_database False])"
    by blast
  from Impl_ctor_order [OF a1] ra
  have ia: "up \<lparr>up = True\<rparr> \<longleftrightarrow> smi bench \<and> init_drive_database bench False"
    by blast
  from Impl_ctor_order [OF b1] b2
  have rb: "Impl_ctor (bench\<lparr>smi := False\<rparr>) =
       Inr (\<lparr>up = False\<rparr>, [Check_config, Smart_interface_init])"
    by blast
  from Impl_ctor_order [OF c1] c2 c3
  have rc: "Impl_ctor (bench\<lparr>init_drive_database := \<lambda>b. b\<rparr>) =
       Inr (\<lparr>up = False\<rparr>, [Check_config, Smart_interface_init, Init_drive_database False])"
    by blast
  show ?thesis by (intro conjI a1 a2 a3 ra ia b1 b2 rb c1 c2 c3 rc)
qed

subsection \<open>A runtime that is not up\<close>

text \<open>
  C2. If the object is not up, each of the three operations returns the
  default-constructed response with the code \<open>CLIENTINITIALIZTIONFAILURE\<close>, so the
  content is the default one, and makes no call at all: \<open>initDevice\<close> is not run,
  no device is asked for and none is opened.
\<close>

theorem not_up_fails_fast:
  assumes "\<not> up this"
  shows "cantIdDev X this devname type =
           Inr ((CantIdDevResp_new X)\<lparr>err := CLIENTINITIALIZTIONFAILURE\<rparr>, [])
    \<and> getDevInfo X this devname type =
           Inr ((DevInfoResp_new X)\<lparr>err := CLIENTINITIALIZTIONFAILURE\<rparr>, [])
    \<and> getDevVendorAttrs X this devname type =
           Inr ((DevVendorAttrsResp_new X)\<lparr>err := CLIENTINITIALIZTIONFAILURE\<rparr>, [])"
  using assms by (simp add: cantIdDev_def getDevInfo_def getDevVendorAttrs_def)

theorem not_up_fails_fast_witness:
  "\<not> up \<lparr>up = False\<rparr>
   \<and> cantIdDev bench \<lparr>up = False\<rparr> ''/dev/sda'' '''' =
       Inr (\<lparr>content = False, err = CLIENTINITIALIZTIONFAILURE\<rparr>, [])
   \<and> getDevInfo bench \<lparr>up = False\<rparr> ''/dev/sda'' '''' =
       Inr (\<lparr>content = [], err = CLIENTINITIALIZTIONFAILURE\<rparr>, [])
   \<and> getDevVendorAttrs bench \<lparr>up = False\<rparr> ''/dev/sda'' '''' =
       Inr (\<lparr>content = [], err = CLIENTINITIALIZTIONFAILURE\<rparr>, [])"
proof -
  have h: "\<not> up \<lparr>up = False\<rparr>" by simp
  from not_up_fails_fast [OF h, of bench "''/dev/sda''" "''''"] show ?thesis
    using h by (simp add: bench_simps)
qed

subsection \<open>No device object\<close>

text \<open>
  C6. If the object is up and \<open>get_smart_device\<close> returns no device object for the name
  and the hint, each of the three operations returns the code \<open>GETDEVICERR\<close> with the
  default content, and the request for the device is the only call made: no open is
  attempted.
\<close>

theorem no_device_GETDEVICERR:
  assumes "up this"
    and "get_smart_device X (c_str devname) (if type \<noteq> '''' then Some (c_str type) else None) = None"
  shows "cantIdDev X this devname type =
        Inr ((CantIdDevResp_new X)\<lparr>err := GETDEVICERR\<rparr>,
             [Get_smart_device (c_str devname) (if type \<noteq> '''' then Some (c_str type) else None)])
    \<and> getDevInfo X this devname type =
        Inr ((DevInfoResp_new X)\<lparr>err := GETDEVICERR\<rparr>,
             [Get_smart_device (c_str devname) (if type \<noteq> '''' then Some (c_str type) else None)])
    \<and> getDevVendorAttrs X this devname type =
        Inr ((DevVendorAttrsResp_new X)\<lparr>err := GETDEVICERR\<rparr>,
             [Get_smart_device (c_str devname) (if type \<noteq> '''' then Some (c_str type) else None)])"
  using assms(1)
  by (simp add: cantIdDev_def getDevInfo_def getDevVendorAttrs_def initDevice_null [OF assms(2)])

theorem no_device_GETDEVICERR_witness:
  "up \<lparr>up = True\<rparr>
   \<and> get_smart_device bench (c_str ''/dev/none'')
        (if ''scsi'' \<noteq> '''' then Some (c_str ''scsi'') else None) = None
   \<and> cantIdDev bench \<lparr>up = True\<rparr> ''/dev/none'' ''scsi'' =
       Inr (\<lparr>content = False, err = GETDEVICERR\<rparr>,
            [Get_smart_device ''/dev/none'' (Some ''scsi'')])
   \<and> getDevInfo bench \<lparr>up = True\<rparr> ''/dev/none'' ''scsi'' =
       Inr (\<lparr>content = [], err = GETDEVICERR\<rparr>,
            [Get_smart_device ''/dev/none'' (Some ''scsi'')])
   \<and> getDevVendorAttrs bench \<lparr>up = True\<rparr> ''/dev/none'' ''scsi'' =
       Inr (\<lparr>content = [], err = GETDEVICERR\<rparr>,
            [Get_smart_device ''/dev/none'' (Some ''scsi'')])"
proof -
  have h1: "up \<lparr>up = True\<rparr>" by simp
  have h2: "get_smart_device bench (c_str ''/dev/none'')
        (if ''scsi'' \<noteq> '''' then Some (c_str ''scsi'') else None) = None"
    by (simp add: bench_simps c_str_def)
  from no_device_GETDEVICERR [OF h1 h2] show ?thesis
    using h1 h2 by (simp add: bench_simps c_str_def)
qed

subsection \<open>A device that does not open\<close>

text \<open>
  C1. If the object is up, a device object is obtained, and the object held after
  \<open>autodetect_open\<close> reports that it is not open, then \<open>initDevice\<close> returns
  \<open>DEVICEOPENERR\<close> and \<open>cantIdDev\<close> returns the code \<open>NOERR\<close> with content \<open>True\<close>.
  The calls of \<open>cantIdDev\<close> are the three calls of the acquisition and nothing else:
  the device is not asked for its family and \<open>cant_id\<close> is not called.
\<close>

theorem cantIdDev_open_failure:
  assumes "up this"
    and "get_smart_device X (c_str devname) (if type \<noteq> '''' then Some (c_str type) else None) = Some d"
    and "\<not> is_open X (autodetect_open X d)"
  shows "initDevice X devname type =
        ((DEVICEOPENERR, Some (autodetect_open X d)),
         [Get_smart_device (c_str devname) (if type \<noteq> '''' then Some (c_str type) else None),
          Autodetect_open d, Is_open (autodetect_open X d)])
    \<and> cantIdDev X this devname type =
        Inr (\<lparr>content = True, err = NOERR\<rparr>,
             [Get_smart_device (c_str devname) (if type \<noteq> '''' then Some (c_str type) else None),
              Autodetect_open d, Is_open (autodetect_open X d)])"
  using assms(1) by (simp add: cantIdDev_def initDevice_not_open [OF assms(2,3)])

theorem cantIdDev_open_failure_witness:
  "up \<lparr>up = True\<rparr>
   \<and> get_smart_device bench (c_str ''/dev/sdb'')
        (if ''ata'' \<noteq> '''' then Some (c_str ''ata'') else None) = Some 2
   \<and> \<not> is_open bench (autodetect_open bench 2)
   \<and> cantIdDev bench \<lparr>up = True\<rparr> ''/dev/sdb'' ''ata'' =
       Inr (\<lparr>content = True, err = NOERR\<rparr>,
            [Get_smart_device ''/dev/sdb'' (Some ''ata''), Autodetect_open 2, Is_open 2])"
proof -
  have h1: "up \<lparr>up = True\<rparr>" by simp
  have h2: "get_smart_device bench (c_str ''/dev/sdb'')
        (if ''ata'' \<noteq> '''' then Some (c_str ''ata'') else None) = Some 2"
    by (simp add: bench_simps c_str_def)
  have h3: "\<not> is_open bench (autodetect_open bench 2)"
    by (simp add: bench_simps)
  from cantIdDev_open_failure [OF h1 h2 h3] show ?thesis
    using h1 h2 h3 by (simp add: bench_simps c_str_def)
qed

text \<open>
  C7. Under the same conditions, \<open>getDevInfo\<close> and \<open>getDevVendorAttrs\<close> return the code
  \<open>DEVICEOPENERR\<close> of the acquisition with the default content, and make the three calls
  of the acquisition and nothing else.
\<close>

theorem open_failure_DEVICEOPENERR:
  assumes "up this"
    and "get_smart_device X (c_str devname) (if type \<noteq> '''' then Some (c_str type) else None) = Some d"
    and "\<not> is_open X (autodetect_open X d)"
  shows "getDevInfo X this devname type =
        Inr ((DevInfoResp_new X)\<lparr>err := DEVICEOPENERR\<rparr>,
             [Get_smart_device (c_str devname) (if type \<noteq> '''' then Some (c_str type) else None),
              Autodetect_open d, Is_open (autodetect_open X d)])
    \<and> getDevVendorAttrs X this devname type =
        Inr ((DevVendorAttrsResp_new X)\<lparr>err := DEVICEOPENERR\<rparr>,
             [Get_smart_device (c_str devname) (if type \<noteq> '''' then Some (c_str type) else None),
              Autodetect_open d, Is_open (autodetect_open X d)])"
  using assms(1)
  by (simp add: getDevInfo_def getDevVendorAttrs_def initDevice_not_open [OF assms(2,3)])

theorem open_failure_DEVICEOPENERR_witness:
  "up \<lparr>up = True\<rparr>
   \<and> get_smart_device bench (c_str ''/dev/sdb'')
        (if '''' \<noteq> '''' then Some (c_str '''') else None) = Some 2
   \<and> \<not> is_open bench (autodetect_open bench 2)
   \<and> getDevInfo bench \<lparr>up = True\<rparr> ''/dev/sdb'' '''' =
       Inr (\<lparr>content = [], err = DEVICEOPENERR\<rparr>,
            [Get_smart_device ''/dev/sdb'' None, Autodetect_open 2, Is_open 2])
   \<and> getDevVendorAttrs bench \<lparr>up = True\<rparr> ''/dev/sdb'' '''' =
       Inr (\<lparr>content = [], err = DEVICEOPENERR\<rparr>,
            [Get_smart_device ''/dev/sdb'' None, Autodetect_open 2, Is_open 2])"
proof -
  have h1: "up \<lparr>up = True\<rparr>" by simp
  have h2: "get_smart_device bench (c_str ''/dev/sdb'')
        (if '''' \<noteq> '''' then Some (c_str '''') else None) = Some 2"
    by (simp add: bench_simps c_str_def)
  have h3: "\<not> is_open bench (autodetect_open bench 2)"
    by (simp add: bench_simps)
  from open_failure_DEVICEOPENERR [OF h1 h2 h3] show ?thesis
    using h1 h2 h3 by (simp add: bench_simps c_str_def)
qed

subsection \<open>A device that opens\<close>

text \<open>
  C4. If the object is up, a device object is obtained, the object held after
  \<open>autodetect_open\<close> is open and is an ATA device, then the acquisition returns \<open>NOERR\<close>
  and \<open>cantIdDev\<close> returns the code \<open>NOERR\<close> with, as content, the very value that
  \<open>cant_id\<close> returns for the ATA handle of that object.
\<close>

theorem cantIdDev_ata:
  assumes "up this"
    and "get_smart_device X (c_str devname) (if type \<noteq> '''' then Some (c_str type) else None) = Some d"
    and "is_open X (autodetect_open X d)"
    and "is_ata X (autodetect_open X d)"
  shows "initDevice X devname type =
        ((NOERR, Some (autodetect_open X d)),
         [Get_smart_device (c_str devname) (if type \<noteq> '''' then Some (c_str type) else None),
          Autodetect_open d, Is_open (autodetect_open X d)])
    \<and> cantIdDev X this devname type =
        Inr (\<lparr>content = cant_id X (to_ata X (autodetect_open X d)), err = NOERR\<rparr>,
             [Get_smart_device (c_str devname) (if type \<noteq> '''' then Some (c_str type) else None),
              Autodetect_open d, Is_open (autodetect_open X d),
              Is_ata (autodetect_open X d), To_ata (autodetect_open X d),
              Cant_id (to_ata X (autodetect_open X d))])"
  using assms(1,4) by (simp add: cantIdDev_def initDevice_open [OF assms(2,3)])

theorem cantIdDev_ata_witness:
  "up \<lparr>up = True\<rparr>
   \<and> get_smart_device bench (c_str ''/dev/sda'')
        (if '''' \<noteq> '''' then Some (c_str '''') else None) = Some 0
   \<and> is_open bench (autodetect_open bench 0)
   \<and> is_ata bench (autodetect_open bench 0)
   \<and> cant_id bench (to_ata bench (autodetect_open bench 0))
   \<and> cantIdDev bench \<lparr>up = True\<rparr> ''/dev/sda'' '''' =
       Inr (\<lparr>content = True, err = NOERR\<rparr>,
            [Get_smart_device ''/dev/sda'' None, Autodetect_open 0, Is_open 1,
             Is_ata 1, To_ata 1, Cant_id 11])"
proof -
  have h1: "up \<lparr>up = True\<rparr>" by simp
  have h2: "get_smart_device bench (c_str ''/dev/sda'')
        (if '''' \<noteq> '''' then Some (c_str '''') else None) = Some 0"
    by (simp add: bench_simps c_str_def)
  have h3: "is_open bench (autodetect_open bench 0)"
    by (simp add: bench_simps)
  have h4: "is_ata bench (autodetect_open bench 0)"
    by (simp add: bench_simps)
  from cantIdDev_ata [OF h1 h2 h3 h4] show ?thesis
    using h1 h2 h3 h4 by (simp add: bench_simps c_str_def)
qed

text \<open>
  C5. If the object is up, a device object is obtained and the object held after
  \<open>autodetect_open\<close> is open but is not an ATA device, then the acquisition returns
  \<open>NOERR\<close> and each of the three operations returns the code \<open>UNSUPPORTEDDEVICETYPE\<close>
  with the default content. The only call after the acquisition is the question whether
  the device is an ATA device: no routine for any device family is called, whatever
  it would do.
\<close>

theorem not_ata_unsupported:
  assumes "up this"
    and "get_smart_device X (c_str devname) (if type \<noteq> '''' then Some (c_str type) else None) = Some d"
    and "is_open X (autodetect_open X d)"
    and "\<not> is_ata X (autodetect_open X d)"
  shows "initDevice X devname type =
        ((NOERR, Some (autodetect_open X d)),
         [Get_smart_device (c_str devname) (if type \<noteq> '''' then Some (c_str type) else None),
          Autodetect_open d, Is_open (autodetect_open X d)])
    \<and> cantIdDev X this devname type =
        Inr ((CantIdDevResp_new X)\<lparr>err := UNSUPPORTEDDEVICETYPE\<rparr>,
             [Get_smart_device (c_str devname) (if type \<noteq> '''' then Some (c_str type) else None),
              Autodetect_open d, Is_open (autodetect_open X d), Is_ata (autodetect_open X d)])
    \<and> getDevInfo X this devname type =
        Inr ((DevInfoResp_new X)\<lparr>err := UNSUPPORTEDDEVICETYPE\<rparr>,
             [Get_smart_device (c_str devname) (if type \<noteq> '''' then Some (c_str type) else None),
              Autodetect_open d, Is_open (autodetect_open X d), Is_ata (autodetect_open X d)])
    \<and> getDevVendorAttrs X this devname type =
        Inr ((DevVendorAttrsResp_new X)\<lparr>err := UNSUPPORTEDDEVICETYPE\<rparr>,
             [Get_smart_device (c_str devname) (if type \<noteq> '''' then Some (c_str type) else None),
              Autodetect_open d, Is_open (autodetect_open X d), Is_ata (autodetect_open X d)])"
  using assms(1,4)
  by (simp add: cantIdDev_def getDevInfo_def getDevVendorAttrs_def initDevice_open [OF assms(2,3)])

theorem not_ata_unsupported_witness:
  "up \<lparr>up = True\<rparr>
   \<and> get_smart_device bench (c_str ''/dev/sdc'')
        (if '''' \<noteq> '''' then Some (c_str '''') else None) = Some 4
   \<and> is_open bench (autodetect_open bench 4)
   \<and> \<not> is_ata bench (autodetect_open bench 4)
   \<and> cantIdDev bench \<lparr>up = True\<rparr> ''/dev/sdc'' '''' =
       Inr (\<lparr>content = False, err = UNSUPPORTEDDEVICETYPE\<rparr>,
            [Get_smart_device ''/dev/sdc'' None, Autodetect_open 4, Is_open 5, Is_ata 5])
   \<and> getDevInfo bench \<lparr>up = True\<rparr> ''/dev/sdc'' '''' =
       Inr (\<lparr>content = [], err = UNSUPPORTEDDEVICETYPE\<rparr>,
            [Get_smart_device ''/dev/sdc'' None, Autodetect_open 4, Is_open 5, Is_ata 5])
   \<and> getDevVendorAttrs bench \<lparr>up = True\<rparr> ''/dev/sdc'' '''' =
       Inr (\<lparr>content = [], err = UNSUPPORTEDDEVICETYPE\<rparr>,
            [Get_smart_device ''/dev/sdc'' None, Autodetect_open 4, Is_open 5, Is_ata 5])"
proof -
  have h1: "up \<lparr>up = True\<rparr>" by simp
  have h2: "get_smart_device bench (c_str ''/dev/sdc'')
        (if '''' \<noteq> '''' then Some (c_str '''') else None) = Some 4"
    by (simp add: bench_simps c_str_def)
  have h3: "is_open bench (autodetect_open bench 4)"
    by (simp add: bench_simps)
  have h4: "\<not> is_ata bench (autodetect_open bench 4)"
    by (simp add: bench_simps)
  from not_ata_unsupported [OF h1 h2 h3 h4] show ?thesis
    using h1 h2 h3 h4 by (simp add: bench_simps c_str_def)
qed

subsection \<open>The content that comes with an error code\<close>

text \<open>
  C3, as the code has it. Every operation returns a response, never a fault. When
  \<open>cantIdDev\<close> returns a code other than \<open>NOERR\<close>, the content is the default one. When
  \<open>getDevInfo\<close> or \<open>getDevVendorAttrs\<close> returns a code other than \<open>NOERR\<close> and did not
  call its ATA extractor, the content is the default one. When it did call the extractor,
  the response holds the code and the content exactly as the extractor returned them for
  the default content, whatever they are.
\<close>

theorem error_content_default_or_extractor:
  "(\<exists>r calls. cantIdDev X this devname type = Inr (r, calls))
   \<and> (\<exists>r calls. getDevInfo X this devname type = Inr (r, calls))
   \<and> (\<exists>r calls. getDevVendorAttrs X this devname type = Inr (r, calls))
   \<and> (\<forall>r calls. cantIdDev X this devname type = Inr (r, calls) \<longrightarrow> err r \<noteq> NOERR \<longrightarrow>
         content r = content (CantIdDevResp_new X))
   \<and> (\<forall>r calls. getDevInfo X this devname type = Inr (r, calls) \<longrightarrow>
         (err r \<noteq> NOERR \<longrightarrow> (\<forall>a opts. Get_ata_information a opts \<notin> set calls) \<longrightarrow>
            content r = content (DevInfoResp_new X))
         \<and> (\<forall>a opts. Get_ata_information a opts \<in> set calls \<longrightarrow>
            (err r, content r) = get_ata_information X (content (DevInfoResp_new X)) a opts))
   \<and> (\<forall>r calls. getDevVendorAttrs X this devname type = Inr (r, calls) \<longrightarrow>
         (err r \<noteq> NOERR \<longrightarrow> (\<forall>a opts. Get_ata_vendor_attr a opts \<notin> set calls) \<longrightarrow>
            content r = content (DevVendorAttrsResp_new X))
         \<and> (\<forall>a opts. Get_ata_vendor_attr a opts \<in> set calls \<longrightarrow>
            (err r, content r) = get_ata_vendor_attr X (content (DevVendorAttrsResp_new X)) a opts))"
proof (intro conjI allI impI)
  show "\<exists>r calls. cantIdDev X this devname type = Inr (r, calls)"
    by (rule cantIdDev_total)
  show "\<exists>r calls. getDevInfo X this devname type = Inr (r, calls)"
    by (rule getDevInfo_total)
  show "\<exists>r calls. getDevVendorAttrs X this devname type = Inr (r, calls)"
    by (rule getDevVendorAttrs_total)
next
  fix r calls
  assume "cantIdDev X this devname type = Inr (r, calls)" and "err r \<noteq> NOERR"
  then show "content r = content (CantIdDevResp_new X)"
    by (rule cantIdDev_error_content)
next
  fix r calls
  assume "getDevInfo X this devname type = Inr (r, calls)" and "err r \<noteq> NOERR"
    and "\<forall>a opts. Get_ata_information a opts \<notin> set calls"
  then show "content r = content (DevInfoResp_new X)"
    by (rule getDevInfo_error_content)
next
  fix r calls a opts
  assume "getDevInfo X this devname type = Inr (r, calls)"
    and "Get_ata_information a opts \<in> set calls"
  then show "(err r, content r) = get_ata_information X (content (DevInfoResp_new X)) a opts"
    by (rule getDevInfo_extractor)
next
  fix r calls
  assume "getDevVendorAttrs X this devname type = Inr (r, calls)" and "err r \<noteq> NOERR"
    and "\<forall>a opts. Get_ata_vendor_attr a opts \<notin> set calls"
  then show "content r = content (DevVendorAttrsResp_new X)"
    by (rule getDevVendorAttrs_error_content)
next
  fix r calls a opts
  assume "getDevVendorAttrs X this devname type = Inr (r, calls)"
    and "Get_ata_vendor_attr a opts \<in> set calls"
  then show "(err r, content r) = get_ata_vendor_attr X (content (DevVendorAttrsResp_new X)) a opts"
    by (rule getDevVendorAttrs_extractor)
qed

theorem error_content_default_or_extractor_witness:
  "cantIdDev bench \<lparr>up = True\<rparr> ''/dev/none'' '''' =
       Inr (\<lparr>content = False, err = GETDEVICERR\<rparr>, [Get_smart_device ''/dev/none'' None])
   \<and> err \<lparr>content = False, err = GETDEVICERR\<rparr> \<noteq> NOERR
   \<and> content \<lparr>content = False, err = GETDEVICERR\<rparr> = content (CantIdDevResp_new bench)
   \<and> getDevInfo bench \<lparr>up = True\<rparr> ''/dev/sdc'' '''' =
       Inr (\<lparr>content = [], err = UNSUPPORTEDDEVICETYPE\<rparr>,
            [Get_smart_device ''/dev/sdc'' None, Autodetect_open 4, Is_open 5, Is_ata 5])
   \<and> err \<lparr>content = [], err = UNSUPPORTEDDEVICETYPE\<rparr> \<noteq> NOERR
   \<and> content \<lparr>content = [], err = UNSUPPORTEDDEVICETYPE\<rparr> = content (DevInfoResp_new bench)
   \<and> getDevVendorAttrs bench \<lparr>up = True\<rparr> ''/dev/sdb'' '''' =
       Inr (\<lparr>content = [], err = DEVICEOPENERR\<rparr>,
            [Get_smart_device ''/dev/sdb'' None, Autodetect_open 2, Is_open 2])
   \<and> err \<lparr>content = [], err = DEVICEOPENERR\<rparr> \<noteq> NOERR
   \<and> content \<lparr>content = [], err = DEVICEOPENERR\<rparr> = content (DevVendorAttrsResp_new bench)
   \<and> getDevInfo bench \<lparr>up = True\<rparr> ''/dev/sda'' '''' =
       Inr (\<lparr>content = [(''model'', ''unknown'')], err = FAILEDSMARTCMD\<rparr>,
            [Get_smart_device ''/dev/sda'' None, Autodetect_open 0, Is_open 1, Is_ata 1, To_ata 1,
             Get_ata_information 11 \<lparr>drive_info = True, smart_vendor_attrib = False\<rparr>])
   \<and> (FAILEDSMARTCMD, [(''model'', ''unknown'')]) =
       get_ata_information bench (content (DevInfoResp_new bench)) 11
         \<lparr>drive_info = True, smart_vendor_attrib = False\<rparr>
   \<and> getDevVendorAttrs bench \<lparr>up = True\<rparr> ''/dev/sda'' '''' =
       Inr (\<lparr>content = [[(''id'', ''5'')]], err = NOERR\<rparr>,
            [Get_smart_device ''/dev/sda'' None, Autodetect_open 0, Is_open 1, Is_ata 1, To_ata 1,
             Get_ata_vendor_attr 11 \<lparr>drive_info = False, smart_vendor_attrib = True\<rparr>])
   \<and> (NOERR, [[(''id'', ''5'')]]) =
       get_ata_vendor_attr bench (content (DevVendorAttrsResp_new bench)) 11
         \<lparr>drive_info = False, smart_vendor_attrib = True\<rparr>"
proof -
  note inst1 = error_content_default_or_extractor [of bench "\<lparr>up = True\<rparr>" "''/dev/none''" "''''"]
  note inst2 = error_content_default_or_extractor [of bench "\<lparr>up = True\<rparr>" "''/dev/sdc''" "''''"]
  note inst3 = error_content_default_or_extractor [of bench "\<lparr>up = True\<rparr>" "''/dev/sda''" "''''"]
  note inst4 = error_content_default_or_extractor [of bench "\<lparr>up = True\<rparr>" "''/dev/sdb''" "''''"]
  have a1: "cantIdDev bench \<lparr>up = True\<rparr> ''/dev/none'' '''' =
       Inr (\<lparr>content = False, err = GETDEVICERR\<rparr>, [Get_smart_device ''/dev/none'' None])"
    by (simp add: cantIdDev_def initDevice_def c_str_def bench_simps)
  have a2: "err \<lparr>content = False, err = GETDEVICERR\<rparr> \<noteq> NOERR" by simp
  from inst1 a1 a2
  have a3: "content \<lparr>content = False, err = GETDEVICERR\<rparr> = content (CantIdDevResp_new bench)"
    by blast
  have b1: "getDevInfo bench \<lparr>up = True\<rparr> ''/dev/sdc'' '''' =
       Inr (\<lparr>content = [], err = UNSUPPORTEDDEVICETYPE\<rparr>,
            [Get_smart_device ''/dev/sdc'' None, Autodetect_open 4, Is_open 5, Is_ata 5])"
    by (simp add: getDevInfo_def initDevice_def c_str_def bench_simps)
  have b2: "err \<lparr>content = [], err = UNSUPPORTEDDEVICETYPE\<rparr> \<noteq> NOERR" by simp
  have b3: "\<forall>a opts. Get_ata_information a opts \<notin>
       set [Get_smart_device ''/dev/sdc'' None, Autodetect_open 4, Is_open 5, Is_ata (5::nat)]"
    by simp
  from inst2 b1 b2 b3
  have b4: "content \<lparr>content = [], err = UNSUPPORTEDDEVICETYPE\<rparr> = content (DevInfoResp_new bench)"
    by blast
  have d1: "getDevVendorAttrs bench \<lparr>up = True\<rparr> ''/dev/sdb'' '''' =
       Inr (\<lparr>content = [], err = DEVICEOPENERR\<rparr>,
            [Get_smart_device ''/dev/sdb'' None, Autodetect_open 2, Is_open 2])"
    by (simp add: getDevVendorAttrs_def initDevice_def c_str_def bench_simps)
  have d2: "err \<lparr>content = [], err = DEVICEOPENERR\<rparr> \<noteq> NOERR" by simp
  have d3: "\<forall>a opts. Get_ata_vendor_attr a opts \<notin>
       set [Get_smart_device ''/dev/sdb'' None, Autodetect_open 2, Is_open (2::nat)]"
    by simp
  from inst4 d1 d2 d3
  have d4: "content \<lparr>content = [], err = DEVICEOPENERR\<rparr> = content (DevVendorAttrsResp_new bench)"
    by blast
  have e1: "getDevInfo bench \<lparr>up = True\<rparr> ''/dev/sda'' '''' =
       Inr (\<lparr>content = [(''model'', ''unknown'')], err = FAILEDSMARTCMD\<rparr>,
            [Get_smart_device ''/dev/sda'' None, Autodetect_open 0, Is_open 1, Is_ata 1, To_ata 1,
             Get_ata_information 11 \<lparr>drive_info = True, smart_vendor_attrib = False\<rparr>])"
    by (simp add: getDevInfo_def initDevice_def c_str_def bench_simps)
  have e2: "Get_ata_information 11 \<lparr>drive_info = True, smart_vendor_attrib = False\<rparr> \<in>
       set [Get_smart_device ''/dev/sda'' None, Autodetect_open 0, Is_open 1, Is_ata 1, To_ata (1::nat),
            Get_ata_information (11::nat) \<lparr>drive_info = True, smart_vendor_attrib = False\<rparr>]"
    by simp
  from inst3 e1 e2
  have "(err \<lparr>content = [(''model'', ''unknown'')], err = FAILEDSMARTCMD\<rparr>,
         content \<lparr>content = [(''model'', ''unknown'')], err = FAILEDSMARTCMD\<rparr>) =
       get_ata_information bench (content (DevInfoResp_new bench)) 11
         \<lparr>drive_info = True, smart_vendor_attrib = False\<rparr>"
    by blast
  then have e3: "(FAILEDSMARTCMD, [(''model'', ''unknown'')]) =
       get_ata_information bench (content (DevInfoResp_new bench)) 11
         \<lparr>drive_info = True, smart_vendor_attrib = False\<rparr>"
    by simp
  have c1: "getDevVendorAttrs bench \<lparr>up = True\<rparr> ''/dev/sda'' '''' =
       Inr (\<lparr>content = [[(''id'', ''5'')]], err = NOERR\<rparr>,
            [Get_smart_device ''/dev/sda'' None, Autodetect_open 0, Is_open 1, Is_ata 1, To_ata 1,
             Get_ata_vendor_attr 11 \<lparr>drive_info = False, smart_vendor_attrib = True\<rparr>])"
    by (simp add: getDevVendorAttrs_def initDevice_def c_str_def bench_simps)
  have c2: "Get_ata_vendor_attr 11 \<lparr>drive_info = False, smart_vendor_attrib = True\<rparr> \<in>
       set [Get_smart_device ''/dev/sda'' None, Autodetect_open 0, Is_open 1, Is_ata 1, To_ata (1::nat),
            Get_ata_vendor_attr (11::nat) \<lparr>drive_info = False, smart_vendor_attrib = True\<rparr>]"
    by simp
  from inst3 c1 c2
  have "(err \<lparr>content = [[(''id'', ''5'')]], err = NOERR\<rparr>,
         content \<lparr>content = [[(''id'', ''5'')]], err = NOERR\<rparr>) =
       get_ata_vendor_attr bench (content (DevVendorAttrsResp_new bench)) 11
         \<lparr>drive_info = False, smart_vendor_attrib = True\<rparr>"
    by blast
  then have c3: "(NOERR, [[(''id'', ''5'')]]) =
       get_ata_vendor_attr bench (content (DevVendorAttrsResp_new bench)) 11
         \<lparr>drive_info = False, smart_vendor_attrib = True\<rparr>"
    by simp
  show ?thesis by (intro conjI a1 a2 a3 b1 b2 b4 d1 d2 d4 e1 e3 c1 c3)
qed

text \<open>
  The statement of C3 as written, that the content is the default one whenever the code is
  not \<open>NOERR\<close>, also after the extractor has written into the content, fails on the
  bench: for \<^verbatim>\<open>/dev/sda\<close> the extractor adds an entry and reports \<open>FAILEDSMARTCMD\<close>, and
  \<open>getDevInfo\<close> returns that code together with the entry, while the default content
  is empty.
\<close>

theorem getDevInfo_error_content_counterexample:
  "getDevInfo bench \<lparr>up = True\<rparr> ''/dev/sda'' '''' =
     Inr (\<lparr>content = [(''model'', ''unknown'')], err = FAILEDSMARTCMD\<rparr>,
          [Get_smart_device ''/dev/sda'' None, Autodetect_open 0, Is_open 1, Is_ata 1, To_ata 1,
           Get_ata_information 11 \<lparr>drive_info = True, smart_vendor_attrib = False\<rparr>])
   \<and> FAILEDSMARTCMD \<noteq> NOERR
   \<and> content (DevInfoResp_new bench) = []
   \<and> [(''model'', ''unknown'')] \<noteq> content (DevInfoResp_new bench)"
  by (simp add: getDevInfo_def initDevice_def c_str_def bench_simps)

subsection \<open>The device name\<close>

text \<open>
  What the operations do with a device name: two names with the same C string give the
  same result; an operation that is up calls \<open>get_smart_device\<close> first; and what the
  device interface answers for the C string decides the response.
\<close>

lemma initDevice_c_str_cong:
  "c_str devname' = c_str devname \<Longrightarrow> initDevice X devname' type = initDevice X devname type"
  by (simp add: initDevice_def)

lemma cantIdDev_c_str_cong:
  assumes "c_str devname' = c_str devname"
  shows "cantIdDev X this devname' type = cantIdDev X this devname type"
  unfolding cantIdDev_def initDevice_c_str_cong [OF assms] by (rule refl)

lemma getDevInfo_c_str_cong:
  assumes "c_str devname' = c_str devname"
  shows "getDevInfo X this devname' type = getDevInfo X this devname type"
  unfolding getDevInfo_def initDevice_c_str_cong [OF assms] by (rule refl)

lemma getDevVendorAttrs_c_str_cong:
  assumes "c_str devname' = c_str devname"
  shows "getDevVendorAttrs X this devname' type = getDevVendorAttrs X this devname type"
  unfolding getDevVendorAttrs_def initDevice_c_str_cong [OF assms] by (rule refl)

lemma cantIdDev_first_call:
  "up this \<Longrightarrow>
     \<exists>r rest. cantIdDev X this devname type =
       Inr (r, Get_smart_device (c_str devname) (if type \<noteq> '''' then Some (c_str type) else None) # rest)"
  by (auto simp: cantIdDev_def initDevice_def Let_def split: option.splits ctlerr_t.splits)

lemma getDevInfo_first_call:
  "up this \<Longrightarrow>
     \<exists>r rest. getDevInfo X this devname type =
       Inr (r, Get_smart_device (c_str devname) (if type \<noteq> '''' then Some (c_str type) else None) # rest)"
  by (auto simp: getDevInfo_def initDevice_def Let_def split: option.splits prod.splits)

lemma getDevVendorAttrs_first_call:
  "up this \<Longrightarrow>
     \<exists>r rest. getDevVendorAttrs X this devname type =
       Inr (r, Get_smart_device (c_str devname) (if type \<noteq> '''' then Some (c_str type) else None) # rest)"
  by (auto simp: getDevVendorAttrs_def initDevice_def Let_def split: option.splits prod.splits)

lemma operations_not_up:
  assumes "\<not> up this"
  shows "cantIdDev X this devname type =
          Inr ((CantIdDevResp_new X)\<lparr>err := CLIENTINITIALIZTIONFAILURE\<rparr>, [])
    \<and> getDevInfo X this devname type =
          Inr ((DevInfoResp_new X)\<lparr>err := CLIENTINITIALIZTIONFAILURE\<rparr>, [])
    \<and> getDevVendorAttrs X this devname type =
          Inr ((DevVendorAttrsResp_new X)\<lparr>err := CLIENTINITIALIZTIONFAILURE\<rparr>, [])"
  using assms by (simp add: cantIdDev_def getDevInfo_def getDevVendorAttrs_def)

lemma operations_null:
  assumes "up this"
    and "get_smart_device X (c_str devname) (if type \<noteq> '''' then Some (c_str type) else None) = None"
  shows "cantIdDev X this devname type =
        Inr ((CantIdDevResp_new X)\<lparr>err := GETDEVICERR\<rparr>,
             [Get_smart_device (c_str devname) (if type \<noteq> '''' then Some (c_str type) else None)])
    \<and> getDevInfo X this devname type =
        Inr ((DevInfoResp_new X)\<lparr>err := GETDEVICERR\<rparr>,
             [Get_smart_device (c_str devname) (if type \<noteq> '''' then Some (c_str type) else None)])
    \<and> getDevVendorAttrs X this devname type =
        Inr ((DevVendorAttrsResp_new X)\<lparr>err := GETDEVICERR\<rparr>,
             [Get_smart_device (c_str devname) (if type \<noteq> '''' then Some (c_str type) else None)])"
  using assms(1)
  by (simp add: cantIdDev_def getDevInfo_def getDevVendorAttrs_def initDevice_null [OF assms(2)])

lemma operations_not_open:
  assumes "up this"
    and "get_smart_device X (c_str devname) (if type \<noteq> '''' then Some (c_str type) else None) = Some d"
    and "\<not> is_open X (autodetect_open X d)"
  shows "cantIdDev X this devname type =
        Inr (\<lparr>content = True, err = NOERR\<rparr>,
             [Get_smart_device (c_str devname) (if type \<noteq> '''' then Some (c_str type) else None),
              Autodetect_open d, Is_open (autodetect_open X d)])
    \<and> getDevInfo X this devname type =
        Inr ((DevInfoResp_new X)\<lparr>err := DEVICEOPENERR\<rparr>,
             [Get_smart_device (c_str devname) (if type \<noteq> '''' then Some (c_str type) else None),
              Autodetect_open d, Is_open (autodetect_open X d)])
    \<and> getDevVendorAttrs X this devname type =
        Inr ((DevVendorAttrsResp_new X)\<lparr>err := DEVICEOPENERR\<rparr>,
             [Get_smart_device (c_str devname) (if type \<noteq> '''' then Some (c_str type) else None),
              Autodetect_open d, Is_open (autodetect_open X d)])"
  using assms(1)
  by (simp add: cantIdDev_def getDevInfo_def getDevVendorAttrs_def
      initDevice_not_open [OF assms(2,3)])

lemma operations_not_ata:
  assumes "up this"
    and "get_smart_device X (c_str devname) (if type \<noteq> '''' then Some (c_str type) else None) = Some d"
    and "is_open X (autodetect_open X d)"
    and "\<not> is_ata X (autodetect_open X d)"
  shows "cantIdDev X this devname type =
        Inr ((CantIdDevResp_new X)\<lparr>err := UNSUPPORTEDDEVICETYPE\<rparr>,
             [Get_smart_device (c_str devname) (if type \<noteq> '''' then Some (c_str type) else None),
              Autodetect_open d, Is_open (autodetect_open X d), Is_ata (autodetect_open X d)])
    \<and> getDevInfo X this devname type =
        Inr ((DevInfoResp_new X)\<lparr>err := UNSUPPORTEDDEVICETYPE\<rparr>,
             [Get_smart_device (c_str devname) (if type \<noteq> '''' then Some (c_str type) else None),
              Autodetect_open d, Is_open (autodetect_open X d), Is_ata (autodetect_open X d)])
    \<and> getDevVendorAttrs X this devname type =
        Inr ((DevVendorAttrsResp_new X)\<lparr>err := UNSUPPORTEDDEVICETYPE\<rparr>,
             [Get_smart_device (c_str devname) (if type \<noteq> '''' then Some (c_str type) else None),
              Autodetect_open d, Is_open (autodetect_open X d), Is_ata (autodetect_open X d)])"
  using assms(1,4)
  by (simp add: cantIdDev_def getDevInfo_def getDevVendorAttrs_def initDevice_open [OF assms(2,3)])

lemma operations_ata:
  assumes "up this"
    and "get_smart_device X (c_str devname) (if type \<noteq> '''' then Some (c_str type) else None) = Some d"
    and "is_open X (autodetect_open X d)"
    and "is_ata X (autodetect_open X d)"
  shows "cantIdDev X this devname type =
        Inr (\<lparr>content = cant_id X (to_ata X (autodetect_open X d)), err = NOERR\<rparr>,
             [Get_smart_device (c_str devname) (if type \<noteq> '''' then Some (c_str type) else None),
              Autodetect_open d, Is_open (autodetect_open X d),
              Is_ata (autodetect_open X d), To_ata (autodetect_open X d),
              Cant_id (to_ata X (autodetect_open X d))])
    \<and> getDevInfo X this devname type =
        Inr (\<lparr>content = snd (get_ata_information X (content (DevInfoResp_new X))
                              (to_ata X (autodetect_open X d))
                              ((ata_print_options_new X)\<lparr>drive_info := True\<rparr>)),
              err = fst (get_ata_information X (content (DevInfoResp_new X))
                              (to_ata X (autodetect_open X d))
                              ((ata_print_options_new X)\<lparr>drive_info := True\<rparr>))\<rparr>,
             [Get_smart_device (c_str devname) (if type \<noteq> '''' then Some (c_str type) else None),
              Autodetect_open d, Is_open (autodetect_open X d),
              Is_ata (autodetect_open X d), To_ata (autodetect_open X d),
              Get_ata_information (to_ata X (autodetect_open X d))
                ((ata_print_options_new X)\<lparr>drive_info := True\<rparr>)])
    \<and> getDevVendorAttrs X this devname type =
        Inr (\<lparr>content = snd (get_ata_vendor_attr X (content (DevVendorAttrsResp_new X))
                              (to_ata X (autodetect_open X d))
                              ((ata_print_options_new X)\<lparr>smart_vendor_attrib := True\<rparr>)),
              err = fst (get_ata_vendor_attr X (content (DevVendorAttrsResp_new X))
                              (to_ata X (autodetect_open X d))
                              ((ata_print_options_new X)\<lparr>smart_vendor_attrib := True\<rparr>))\<rparr>,
             [Get_smart_device (c_str devname) (if type \<noteq> '''' then Some (c_str type) else None),
              Autodetect_open d, Is_open (autodetect_open X d),
              Is_ata (autodetect_open X d), To_ata (autodetect_open X d),
              Get_ata_vendor_attr (to_ata X (autodetect_open X d))
                ((ata_print_options_new X)\<lparr>smart_vendor_attrib := True\<rparr>)])"
  using assms(1,4)
  by (simp add: cantIdDev_def getDevInfo_def getDevVendorAttrs_def initDevice_open [OF assms(2,3)]
      case_prod_beta Let_def)

text \<open>The codes an operation can return without the help of an extractor.\<close>

lemma cantIdDev_codes:
  "cantIdDev X this devname type = Inr (r, calls) \<Longrightarrow>
     err r \<in> {NOERR, GETDEVICERR, UNSUPPORTEDDEVICETYPE, CLIENTINITIALIZTIONFAILURE}"
  by (auto simp: cantIdDev_def initDevice_def Let_def split: option.splits if_splits)

lemma getDevInfo_codes:
  "getDevInfo X this devname type = Inr (r, calls) \<Longrightarrow>
     \<forall>a opts. Get_ata_information a opts \<notin> set calls \<Longrightarrow>
     err r \<in> {GETDEVICERR, DEVICEOPENERR, UNSUPPORTEDDEVICETYPE, CLIENTINITIALIZTIONFAILURE}"
  by (auto simp: getDevInfo_def initDevice_def Let_def split: option.splits if_splits prod.splits)

lemma getDevVendorAttrs_codes:
  "getDevVendorAttrs X this devname type = Inr (r, calls) \<Longrightarrow>
     \<forall>a opts. Get_ata_vendor_attr a opts \<notin> set calls \<Longrightarrow>
     err r \<in> {GETDEVICERR, DEVICEOPENERR, UNSUPPORTEDDEVICETYPE, CLIENTINITIALIZTIONFAILURE}"
  by (auto simp: getDevVendorAttrs_def initDevice_def Let_def
      split: option.splits if_splits prod.splits)

text \<open>
  C10, as the code has it. For every device name, the empty one included, nothing checks
  the name.

  The acquisition: its first call is \<open>get_smart_device\<close> on the name as a C string, that
  is, on the characters before its first NUL, which is the whole name when it holds no
  NUL. The hint is passed the same way when it is not empty, and as a null pointer when
  it is empty. The acquisition returns \<open>NOERR\<close>, \<open>GETDEVICERR\<close> or \<open>DEVICEOPENERR\<close> and no
  other code, \<open>GETDEVICERR\<close> exactly when \<open>get_smart_device\<close> returns no object,
  \<open>DEVICEOPENERR\<close> exactly when the object it returns is not open after
  \<open>autodetect_open\<close>.

  The three operations: two names with the same C string get the same result. An
  operation of an object that is not up returns \<open>CLIENTINITIALIZTIONFAILURE\<close> with the
  default content and makes no call, whatever the name. An
  operation of an object that is up begins with the calls of the acquisition, so its
  first call is \<open>get_smart_device\<close> on the C string of the name. What the device
  interface answers for that C string decides the result:
  \<^item> no device object: all three operations return \<open>GETDEVICERR\<close> with the default
    content;
  \<^item> an object that does not open: \<open>cantIdDev\<close> returns \<open>NOERR\<close> with content \<open>True\<close>,
    the other two return \<open>DEVICEOPENERR\<close> with the default content;
  \<^item> an open object that is not ATA: all three return \<open>UNSUPPORTEDDEVICETYPE\<close> with the
    default content;
  \<^item> an open ATA object: \<open>cantIdDev\<close> returns \<open>NOERR\<close> with what \<open>cant_id\<close> returns, the
    other two return the code and the content of their extractor.

  No code stands for a bad name: \<open>cantIdDev\<close> returns \<open>NOERR\<close>, \<open>GETDEVICERR\<close>,
  \<open>UNSUPPORTEDDEVICETYPE\<close> or \<open>CLIENTINITIALIZTIONFAILURE\<close>, and the other two, unless they
  called their extractor, return \<open>GETDEVICERR\<close>, \<open>DEVICEOPENERR\<close>,
  \<open>UNSUPPORTEDDEVICETYPE\<close> or \<open>CLIENTINITIALIZTIONFAILURE\<close>.
\<close>

theorem devname_forwarded_as_c_str:
  "(\<exists>rest. snd (initDevice X devname type) =
      Get_smart_device (c_str devname) (if type \<noteq> '''' then Some (c_str type) else None) # rest)
   \<and> (CHR 0x00 \<notin> set devname \<longrightarrow> c_str devname = devname)
   \<and> (CHR 0x00 \<notin> set type \<longrightarrow> c_str type = type)
   \<and> fst (fst (initDevice X devname type)) \<in> {NOERR, GETDEVICERR, DEVICEOPENERR}
   \<and> (fst (fst (initDevice X devname type)) = GETDEVICERR \<longleftrightarrow>
        get_smart_device X (c_str devname) (if type \<noteq> '''' then Some (c_str type) else None) = None)
   \<and> (fst (fst (initDevice X devname type)) = DEVICEOPENERR \<longleftrightarrow>
        (\<exists>d. get_smart_device X (c_str devname) (if type \<noteq> '''' then Some (c_str type) else None) = Some d
           \<and> \<not> is_open X (autodetect_open X d)))
   \<and> (up this \<longrightarrow>
        (\<exists>r rest. cantIdDev X this devname type = Inr (r, snd (initDevice X devname type) @ rest))
      \<and> (\<exists>r rest. getDevInfo X this devname type = Inr (r, snd (initDevice X devname type) @ rest))
      \<and> (\<exists>r rest. getDevVendorAttrs X this devname type =
            Inr (r, snd (initDevice X devname type) @ rest)))
   \<and> (c_str devname' = c_str devname \<longrightarrow>
        cantIdDev X this devname' type = cantIdDev X this devname type
      \<and> getDevInfo X this devname' type = getDevInfo X this devname type
      \<and> getDevVendorAttrs X this devname' type = getDevVendorAttrs X this devname type)
   \<and> (up this \<longrightarrow>
        (\<exists>r rest. cantIdDev X this devname type =
           Inr (r, Get_smart_device (c_str devname) (if type \<noteq> '''' then Some (c_str type) else None) # rest))
      \<and> (\<exists>r rest. getDevInfo X this devname type =
           Inr (r, Get_smart_device (c_str devname) (if type \<noteq> '''' then Some (c_str type) else None) # rest))
      \<and> (\<exists>r rest. getDevVendorAttrs X this devname type =
           Inr (r, Get_smart_device (c_str devname) (if type \<noteq> '''' then Some (c_str type) else None) # rest)))
   \<and> (up this \<longrightarrow>
      get_smart_device X (c_str devname) (if type \<noteq> '''' then Some (c_str type) else None) = None \<longrightarrow>
        cantIdDev X this devname type =
          Inr ((CantIdDevResp_new X)\<lparr>err := GETDEVICERR\<rparr>,
               [Get_smart_device (c_str devname) (if type \<noteq> '''' then Some (c_str type) else None)])
      \<and> getDevInfo X this devname type =
          Inr ((DevInfoResp_new X)\<lparr>err := GETDEVICERR\<rparr>,
               [Get_smart_device (c_str devname) (if type \<noteq> '''' then Some (c_str type) else None)])
      \<and> getDevVendorAttrs X this devname type =
          Inr ((DevVendorAttrsResp_new X)\<lparr>err := GETDEVICERR\<rparr>,
               [Get_smart_device (c_str devname) (if type \<noteq> '''' then Some (c_str type) else None)]))
   \<and> (up this \<longrightarrow>
      get_smart_device X (c_str devname) (if type \<noteq> '''' then Some (c_str type) else None) = Some d \<longrightarrow>
      \<not> is_open X (autodetect_open X d) \<longrightarrow>
        cantIdDev X this devname type =
          Inr (\<lparr>content = True, err = NOERR\<rparr>,
               [Get_smart_device (c_str devname) (if type \<noteq> '''' then Some (c_str type) else None),
                Autodetect_open d, Is_open (autodetect_open X d)])
      \<and> getDevInfo X this devname type =
          Inr ((DevInfoResp_new X)\<lparr>err := DEVICEOPENERR\<rparr>,
               [Get_smart_device (c_str devname) (if type \<noteq> '''' then Some (c_str type) else None),
                Autodetect_open d, Is_open (autodetect_open X d)])
      \<and> getDevVendorAttrs X this devname type =
          Inr ((DevVendorAttrsResp_new X)\<lparr>err := DEVICEOPENERR\<rparr>,
               [Get_smart_device (c_str devname) (if type \<noteq> '''' then Some (c_str type) else None),
                Autodetect_open d, Is_open (autodetect_open X d)]))
   \<and> (up this \<longrightarrow>
      get_smart_device X (c_str devname) (if type \<noteq> '''' then Some (c_str type) else None) = Some d \<longrightarrow>
      is_open X (autodetect_open X d) \<longrightarrow> \<not> is_ata X (autodetect_open X d) \<longrightarrow>
        cantIdDev X this devname type =
          Inr ((CantIdDevResp_new X)\<lparr>err := UNSUPPORTEDDEVICETYPE\<rparr>,
               [Get_smart_device (c_str devname) (if type \<noteq> '''' then Some (c_str type) else None),
                Autodetect_open d, Is_open (autodetect_open X d), Is_ata (autodetect_open X d)])
      \<and> getDevInfo X this devname type =
          Inr ((DevInfoResp_new X)\<lparr>err := UNSUPPORTEDDEVICETYPE\<rparr>,
               [Get_smart_device (c_str devname) (if type \<noteq> '''' then Some (c_str type) else None),
                Autodetect_open d, Is_open (autodetect_open X d), Is_ata (autodetect_open X d)])
      \<and> getDevVendorAttrs X this devname type =
          Inr ((DevVendorAttrsResp_new X)\<lparr>err := UNSUPPORTEDDEVICETYPE\<rparr>,
               [Get_smart_device (c_str devname) (if type \<noteq> '''' then Some (c_str type) else None),
                Autodetect_open d, Is_open (autodetect_open X d), Is_ata (autodetect_open X d)]))
   \<and> (up this \<longrightarrow>
      get_smart_device X (c_str devname) (if type \<noteq> '''' then Some (c_str type) else None) = Some d \<longrightarrow>
      is_open X (autodetect_open X d) \<longrightarrow> is_ata X (autodetect_open X d) \<longrightarrow>
        cantIdDev X this devname type =
          Inr (\<lparr>content = cant_id X (to_ata X (autodetect_open X d)), err = NOERR\<rparr>,
               [Get_smart_device (c_str devname) (if type \<noteq> '''' then Some (c_str type) else None),
                Autodetect_open d, Is_open (autodetect_open X d), Is_ata (autodetect_open X d), To_ata (autodetect_open X d),
                Cant_id (to_ata X (autodetect_open X d))])
      \<and> getDevInfo X this devname type =
          Inr (\<lparr>content = snd (get_ata_information X (content (DevInfoResp_new X)) (to_ata X (autodetect_open X d))
                    ((ata_print_options_new X)\<lparr>drive_info := True\<rparr>)),
                err = fst (get_ata_information X (content (DevInfoResp_new X)) (to_ata X (autodetect_open X d))
                    ((ata_print_options_new X)\<lparr>drive_info := True\<rparr>))\<rparr>,
               [Get_smart_device (c_str devname) (if type \<noteq> '''' then Some (c_str type) else None),
                Autodetect_open d, Is_open (autodetect_open X d), Is_ata (autodetect_open X d), To_ata (autodetect_open X d),
                Get_ata_information (to_ata X (autodetect_open X d)) ((ata_print_options_new X)\<lparr>drive_info := True\<rparr>)])
      \<and> getDevVendorAttrs X this devname type =
          Inr (\<lparr>content = snd (get_ata_vendor_attr X (content (DevVendorAttrsResp_new X)) (to_ata X (autodetect_open X d))
                    ((ata_print_options_new X)\<lparr>smart_vendor_attrib := True\<rparr>)),
                err = fst (get_ata_vendor_attr X (content (DevVendorAttrsResp_new X)) (to_ata X (autodetect_open X d))
                    ((ata_print_options_new X)\<lparr>smart_vendor_attrib := True\<rparr>))\<rparr>,
               [Get_smart_device (c_str devname) (if type \<noteq> '''' then Some (c_str type) else None),
                Autodetect_open d, Is_open (autodetect_open X d), Is_ata (autodetect_open X d), To_ata (autodetect_open X d),
                Get_ata_vendor_attr (to_ata X (autodetect_open X d)) ((ata_print_options_new X)\<lparr>smart_vendor_attrib := True\<rparr>)]))
   \<and> (\<forall>r calls. cantIdDev X this devname type = Inr (r, calls) \<longrightarrow>
        err r \<in> {NOERR, GETDEVICERR, UNSUPPORTEDDEVICETYPE, CLIENTINITIALIZTIONFAILURE})
   \<and> (\<forall>r calls. getDevInfo X this devname type = Inr (r, calls) \<longrightarrow>
        (\<forall>a opts. Get_ata_information a opts \<notin> set calls) \<longrightarrow>
        err r \<in> {GETDEVICERR, DEVICEOPENERR, UNSUPPORTEDDEVICETYPE, CLIENTINITIALIZTIONFAILURE})
   \<and> (\<forall>r calls. getDevVendorAttrs X this devname type = Inr (r, calls) \<longrightarrow>
        (\<forall>a opts. Get_ata_vendor_attr a opts \<notin> set calls) \<longrightarrow>
        err r \<in> {GETDEVICERR, DEVICEOPENERR, UNSUPPORTEDDEVICETYPE, CLIENTINITIALIZTIONFAILURE})
   \<and> (\<not> up this \<longrightarrow>
        cantIdDev X this devname type =
          Inr ((CantIdDevResp_new X)\<lparr>err := CLIENTINITIALIZTIONFAILURE\<rparr>, [])
      \<and> getDevInfo X this devname type =
          Inr ((DevInfoResp_new X)\<lparr>err := CLIENTINITIALIZTIONFAILURE\<rparr>, [])
      \<and> getDevVendorAttrs X this devname type =
          Inr ((DevVendorAttrsResp_new X)\<lparr>err := CLIENTINITIALIZTIONFAILURE\<rparr>, []))"
proof -
  have p_first: "(\<exists>rest. snd (initDevice X devname type) =
        Get_smart_device (c_str devname) (if type \<noteq> '''' then Some (c_str type) else None) # rest)"
    by (rule initDevice_first_call)
  have p_name: "(CHR 0x00 \<notin> set devname \<longrightarrow> c_str devname = devname)"
    by (intro impI) (rule c_str_no_NUL)
  have p_type: "(CHR 0x00 \<notin> set type \<longrightarrow> c_str type = type)"
    by (intro impI) (rule c_str_no_NUL)
  have p_codes: "fst (fst (initDevice X devname type)) \<in> {NOERR, GETDEVICERR, DEVICEOPENERR}"
    by (rule initDevice_codes)
  have p_null_iff: "(fst (fst (initDevice X devname type)) = GETDEVICERR \<longleftrightarrow>
          get_smart_device X (c_str devname) (if type \<noteq> '''' then Some (c_str type) else None) = None)"
    by (rule initDevice_GETDEVICERR_iff)
  have p_open_iff: "(fst (fst (initDevice X devname type)) = DEVICEOPENERR \<longleftrightarrow>
          (\<exists>d. get_smart_device X (c_str devname) (if type \<noteq> '''' then Some (c_str type) else None) = Some d
             \<and> \<not> is_open X (autodetect_open X d)))"
    by (rule initDevice_DEVICEOPENERR_iff)
  have p_calls: "(up this \<longrightarrow>
          (\<exists>r rest. cantIdDev X this devname type = Inr (r, snd (initDevice X devname type) @ rest))
        \<and> (\<exists>r rest. getDevInfo X this devname type = Inr (r, snd (initDevice X devname type) @ rest))
        \<and> (\<exists>r rest. getDevVendorAttrs X this devname type =
              Inr (r, snd (initDevice X devname type) @ rest)))"
    by (intro impI conjI cantIdDev_calls getDevInfo_calls getDevVendorAttrs_calls)
  have p_cong: "(c_str devname' = c_str devname \<longrightarrow>
          cantIdDev X this devname' type = cantIdDev X this devname type
        \<and> getDevInfo X this devname' type = getDevInfo X this devname type
        \<and> getDevVendorAttrs X this devname' type = getDevVendorAttrs X this devname type)"
    by (intro impI conjI cantIdDev_c_str_cong getDevInfo_c_str_cong
        getDevVendorAttrs_c_str_cong)
  have p_op_first: "(up this \<longrightarrow>
          (\<exists>r rest. cantIdDev X this devname type =
             Inr (r, Get_smart_device (c_str devname) (if type \<noteq> '''' then Some (c_str type) else None) # rest))
        \<and> (\<exists>r rest. getDevInfo X this devname type =
             Inr (r, Get_smart_device (c_str devname) (if type \<noteq> '''' then Some (c_str type) else None) # rest))
        \<and> (\<exists>r rest. getDevVendorAttrs X this devname type =
             Inr (r, Get_smart_device (c_str devname) (if type \<noteq> '''' then Some (c_str type) else None) # rest)))"
    by (intro impI conjI cantIdDev_first_call getDevInfo_first_call
        getDevVendorAttrs_first_call)
  have p_null: "(up this \<longrightarrow>
        get_smart_device X (c_str devname) (if type \<noteq> '''' then Some (c_str type) else None) = None \<longrightarrow>
          cantIdDev X this devname type =
            Inr ((CantIdDevResp_new X)\<lparr>err := GETDEVICERR\<rparr>,
                 [Get_smart_device (c_str devname) (if type \<noteq> '''' then Some (c_str type) else None)])
        \<and> getDevInfo X this devname type =
            Inr ((DevInfoResp_new X)\<lparr>err := GETDEVICERR\<rparr>,
                 [Get_smart_device (c_str devname) (if type \<noteq> '''' then Some (c_str type) else None)])
        \<and> getDevVendorAttrs X this devname type =
            Inr ((DevVendorAttrsResp_new X)\<lparr>err := GETDEVICERR\<rparr>,
                 [Get_smart_device (c_str devname) (if type \<noteq> '''' then Some (c_str type) else None)]))"
    by (intro impI) (rule operations_null)
  have p_not_open: "(up this \<longrightarrow>
        get_smart_device X (c_str devname) (if type \<noteq> '''' then Some (c_str type) else None) = Some d \<longrightarrow>
        \<not> is_open X (autodetect_open X d) \<longrightarrow>
          cantIdDev X this devname type =
            Inr (\<lparr>content = True, err = NOERR\<rparr>,
                 [Get_smart_device (c_str devname) (if type \<noteq> '''' then Some (c_str type) else None),
                  Autodetect_open d, Is_open (autodetect_open X d)])
        \<and> getDevInfo X this devname type =
            Inr ((DevInfoResp_new X)\<lparr>err := DEVICEOPENERR\<rparr>,
                 [Get_smart_device (c_str devname) (if type \<noteq> '''' then Some (c_str type) else None),
                  Autodetect_open d, Is_open (autodetect_open X d)])
        \<and> getDevVendorAttrs X this devname type =
            Inr ((DevVendorAttrsResp_new X)\<lparr>err := DEVICEOPENERR\<rparr>,
                 [Get_smart_device (c_str devname) (if type \<noteq> '''' then Some (c_str type) else None),
                  Autodetect_open d, Is_open (autodetect_open X d)]))"
    by (intro impI) (rule operations_not_open)
  have p_not_ata: "(up this \<longrightarrow>
        get_smart_device X (c_str devname) (if type \<noteq> '''' then Some (c_str type) else None) = Some d \<longrightarrow>
        is_open X (autodetect_open X d) \<longrightarrow> \<not> is_ata X (autodetect_open X d) \<longrightarrow>
          cantIdDev X this devname type =
            Inr ((CantIdDevResp_new X)\<lparr>err := UNSUPPORTEDDEVICETYPE\<rparr>,
                 [Get_smart_device (c_str devname) (if type \<noteq> '''' then Some (c_str type) else None),
                  Autodetect_open d, Is_open (autodetect_open X d), Is_ata (autodetect_open X d)])
        \<and> getDevInfo X this devname type =
            Inr ((DevInfoResp_new X)\<lparr>err := UNSUPPORTEDDEVICETYPE\<rparr>,
                 [Get_smart_device (c_str devname) (if type \<noteq> '''' then Some (c_str type) else None),
                  Autodetect_open d, Is_open (autodetect_open X d), Is_ata (autodetect_open X d)])
        \<and> getDevVendorAttrs X this devname type =
            Inr ((DevVendorAttrsResp_new X)\<lparr>err := UNSUPPORTEDDEVICETYPE\<rparr>,
                 [Get_smart_device (c_str devname) (if type \<noteq> '''' then Some (c_str type) else None),
                  Autodetect_open d, Is_open (autodetect_open X d), Is_ata (autodetect_open X d)]))"
    by (intro impI) (rule operations_not_ata)
  have p_ata: "(up this \<longrightarrow>
        get_smart_device X (c_str devname) (if type \<noteq> '''' then Some (c_str type) else None) = Some d \<longrightarrow>
        is_open X (autodetect_open X d) \<longrightarrow> is_ata X (autodetect_open X d) \<longrightarrow>
          cantIdDev X this devname type =
            Inr (\<lparr>content = cant_id X (to_ata X (autodetect_open X d)), err = NOERR\<rparr>,
                 [Get_smart_device (c_str devname) (if type \<noteq> '''' then Some (c_str type) else None),
                  Autodetect_open d, Is_open (autodetect_open X d), Is_ata (autodetect_open X d), To_ata (autodetect_open X d),
                  Cant_id (to_ata X (autodetect_open X d))])
        \<and> getDevInfo X this devname type =
            Inr (\<lparr>content = snd (get_ata_information X (content (DevInfoResp_new X)) (to_ata X (autodetect_open X d))
                      ((ata_print_options_new X)\<lparr>drive_info := True\<rparr>)),
                  err = fst (get_ata_information X (content (DevInfoResp_new X)) (to_ata X (autodetect_open X d))
                      ((ata_print_options_new X)\<lparr>drive_info := True\<rparr>))\<rparr>,
                 [Get_smart_device (c_str devname) (if type \<noteq> '''' then Some (c_str type) else None),
                  Autodetect_open d, Is_open (autodetect_open X d), Is_ata (autodetect_open X d), To_ata (autodetect_open X d),
                  Get_ata_information (to_ata X (autodetect_open X d)) ((ata_print_options_new X)\<lparr>drive_info := True\<rparr>)])
        \<and> getDevVendorAttrs X this devname type =
            Inr (\<lparr>content = snd (get_ata_vendor_attr X (content (DevVendorAttrsResp_new X)) (to_ata X (autodetect_open X d))
                      ((ata_print_options_new X)\<lparr>smart_vendor_attrib := True\<rparr>)),
                  err = fst (get_ata_vendor_attr X (content (DevVendorAttrsResp_new X)) (to_ata X (autodetect_open X d))
                      ((ata_print_options_new X)\<lparr>smart_vendor_attrib := True\<rparr>))\<rparr>,
                 [Get_smart_device (c_str devname) (if type \<noteq> '''' then Some (c_str type) else None),
                  Autodetect_open d, Is_open (autodetect_open X d), Is_ata (autodetect_open X d), To_ata (autodetect_open X d),
                  Get_ata_vendor_attr (to_ata X (autodetect_open X d)) ((ata_print_options_new X)\<lparr>smart_vendor_attrib := True\<rparr>)]))"
    by (intro impI) (rule operations_ata)
  have p_codes1: "(\<forall>r calls. cantIdDev X this devname type = Inr (r, calls) \<longrightarrow>
          err r \<in> {NOERR, GETDEVICERR, UNSUPPORTEDDEVICETYPE, CLIENTINITIALIZTIONFAILURE})"
    by (intro allI impI) (rule cantIdDev_codes)
  have p_codes2: "(\<forall>r calls. getDevInfo X this devname type = Inr (r, calls) \<longrightarrow>
          (\<forall>a opts. Get_ata_information a opts \<notin> set calls) \<longrightarrow>
          err r \<in> {GETDEVICERR, DEVICEOPENERR, UNSUPPORTEDDEVICETYPE, CLIENTINITIALIZTIONFAILURE})"
    by (intro allI impI) (rule getDevInfo_codes)
  have p_codes3: "(\<forall>r calls. getDevVendorAttrs X this devname type = Inr (r, calls) \<longrightarrow>
          (\<forall>a opts. Get_ata_vendor_attr a opts \<notin> set calls) \<longrightarrow>
          err r \<in> {GETDEVICERR, DEVICEOPENERR, UNSUPPORTEDDEVICETYPE, CLIENTINITIALIZTIONFAILURE})"
    by (intro allI impI) (rule getDevVendorAttrs_codes)
  have p_not_up: "(\<not> up this \<longrightarrow>
          cantIdDev X this devname type =
            Inr ((CantIdDevResp_new X)\<lparr>err := CLIENTINITIALIZTIONFAILURE\<rparr>, [])
        \<and> getDevInfo X this devname type =
            Inr ((DevInfoResp_new X)\<lparr>err := CLIENTINITIALIZTIONFAILURE\<rparr>, [])
        \<and> getDevVendorAttrs X this devname type =
            Inr ((DevVendorAttrsResp_new X)\<lparr>err := CLIENTINITIALIZTIONFAILURE\<rparr>, []))"
    by (intro impI) (rule operations_not_up)
  show ?thesis
    by (intro conjI p_first p_name p_type p_codes p_null_iff p_open_iff p_calls p_cong
        p_op_first p_null p_not_open p_not_ata p_ata p_codes1 p_codes2 p_codes3 p_not_up)
qed

theorem devname_forwarded_as_c_str_witness:
  "\<not> up \<lparr>up = False\<rparr>
   \<and> cantIdDev bench \<lparr>up = False\<rparr> '''' '''' =
       Inr (\<lparr>content = False, err = CLIENTINITIALIZTIONFAILURE\<rparr>, [])
   \<and> CHR 0x00 \<notin> set '''' \<and> c_str '''' = ''''
   \<and> up \<lparr>up = True\<rparr>
   \<and> get_smart_device bench (c_str '''') (if '''' \<noteq> '''' then Some (c_str '''') else None) = None
   \<and> cantIdDev bench \<lparr>up = True\<rparr> '''' '''' =
       Inr (\<lparr>content = False, err = GETDEVICERR\<rparr>, [Get_smart_device '''' None])
   \<and> getDevInfo bench \<lparr>up = True\<rparr> '''' '''' =
       Inr (\<lparr>content = [], err = GETDEVICERR\<rparr>, [Get_smart_device '''' None])
   \<and> getDevVendorAttrs bench \<lparr>up = True\<rparr> '''' '''' =
       Inr (\<lparr>content = [], err = GETDEVICERR\<rparr>, [Get_smart_device '''' None])
   \<and> err \<lparr>content = False, err = GETDEVICERR\<rparr>
       \<in> {NOERR, GETDEVICERR, UNSUPPORTEDDEVICETYPE, CLIENTINITIALIZTIONFAILURE}
   \<and> err \<lparr>content = [] :: (string \<times> string) list, err = GETDEVICERR\<rparr>
       \<in> {GETDEVICERR, DEVICEOPENERR, UNSUPPORTEDDEVICETYPE, CLIENTINITIALIZTIONFAILURE}
   \<and> err \<lparr>content = [] :: (string \<times> string) list list, err = GETDEVICERR\<rparr>
       \<in> {GETDEVICERR, DEVICEOPENERR, UNSUPPORTEDDEVICETYPE, CLIENTINITIALIZTIONFAILURE}
   \<and> CHR 0x00 \<notin> set ''/dev/sdb'' \<and> c_str ''/dev/sdb'' = ''/dev/sdb''
   \<and> CHR 0x00 \<notin> set ''ata'' \<and> c_str ''ata'' = ''ata''
   \<and> get_smart_device bench (c_str ''/dev/sdb'')
        (if ''ata'' \<noteq> '''' then Some (c_str ''ata'') else None) = Some 2
   \<and> \<not> is_open bench (autodetect_open bench 2)
   \<and> fst (fst (initDevice bench ''/dev/sdb'' ''ata'')) = DEVICEOPENERR
   \<and> cantIdDev bench \<lparr>up = True\<rparr> ''/dev/sdb'' ''ata'' =
       Inr (\<lparr>content = True, err = NOERR\<rparr>,
            [Get_smart_device ''/dev/sdb'' (Some ''ata''), Autodetect_open 2, Is_open 2])
   \<and> getDevInfo bench \<lparr>up = True\<rparr> ''/dev/sdb'' ''ata'' =
       Inr (\<lparr>content = [], err = DEVICEOPENERR\<rparr>,
            [Get_smart_device ''/dev/sdb'' (Some ''ata''), Autodetect_open 2, Is_open 2])
   \<and> getDevVendorAttrs bench \<lparr>up = True\<rparr> ''/dev/sdb'' ''ata'' =
       Inr (\<lparr>content = [], err = DEVICEOPENERR\<rparr>,
            [Get_smart_device ''/dev/sdb'' (Some ''ata''), Autodetect_open 2, Is_open 2])
   \<and> (\<exists>r rest. getDevInfo bench \<lparr>up = True\<rparr> ''/dev/sdb'' ''ata'' =
         Inr (r, snd (initDevice bench ''/dev/sdb'' ''ata'') @ rest))
   \<and> (\<exists>r rest. getDevInfo bench \<lparr>up = True\<rparr> ''/dev/sdb'' ''ata'' =
         Inr (r, Get_smart_device (c_str ''/dev/sdb'')
                   (if ''ata'' \<noteq> '''' then Some (c_str ''ata'') else None) # rest))
   \<and> get_smart_device bench (c_str ''/dev/sdc'')
        (if '''' \<noteq> '''' then Some (c_str '''') else None) = Some 4
   \<and> is_open bench (autodetect_open bench 4) \<and> \<not> is_ata bench (autodetect_open bench 4)
   \<and> cantIdDev bench \<lparr>up = True\<rparr> ''/dev/sdc'' '''' =
       Inr (\<lparr>content = False, err = UNSUPPORTEDDEVICETYPE\<rparr>,
            [Get_smart_device ''/dev/sdc'' None, Autodetect_open 4, Is_open 5, Is_ata 5])
   \<and> get_smart_device bench (c_str ''/dev/sda'')
        (if '''' \<noteq> '''' then Some (c_str '''') else None) = Some 0
   \<and> is_open bench (autodetect_open bench 0) \<and> is_ata bench (autodetect_open bench 0)
   \<and> cantIdDev bench \<lparr>up = True\<rparr> ''/dev/sda'' '''' =
       Inr (\<lparr>content = True, err = NOERR\<rparr>,
            [Get_smart_device ''/dev/sda'' None, Autodetect_open 0, Is_open 1,
             Is_ata 1, To_ata 1, Cant_id 11])
   \<and> getDevInfo bench \<lparr>up = True\<rparr> ''/dev/sda'' '''' =
       Inr (\<lparr>content = [(''model'', ''unknown'')], err = FAILEDSMARTCMD\<rparr>,
            [Get_smart_device ''/dev/sda'' None, Autodetect_open 0, Is_open 1, Is_ata 1, To_ata 1,
             Get_ata_information 11 \<lparr>drive_info = True, smart_vendor_attrib = False\<rparr>])
   \<and> c_str (''/dev/sda'' @ [CHR 0x00, CHR ''x'']) = c_str ''/dev/sda''
   \<and> cantIdDev bench \<lparr>up = True\<rparr> (''/dev/sda'' @ [CHR 0x00, CHR ''x'']) '''' =
       cantIdDev bench \<lparr>up = True\<rparr> ''/dev/sda'' ''''
   \<and> getDevInfo bench \<lparr>up = True\<rparr> (''/dev/sda'' @ [CHR 0x00, CHR ''x'']) '''' =
       getDevInfo bench \<lparr>up = True\<rparr> ''/dev/sda'' ''''
   \<and> getDevVendorAttrs bench \<lparr>up = True\<rparr> (''/dev/sda'' @ [CHR 0x00, CHR ''x'']) '''' =
       getDevVendorAttrs bench \<lparr>up = True\<rparr> ''/dev/sda'' ''''"
proof -
  have u: "up \<lparr>up = True\<rparr>" by simp
  \<comment> \<open>the empty name on an object that is not up\<close>
  note inst_n = devname_forwarded_as_c_str [of bench "''''" "''''" "\<lparr>up = False\<rparr>"]
  have n1: "\<not> up \<lparr>up = False\<rparr>" by simp
  note n_not_up = inst_n
    [THEN conjunct2, THEN conjunct2, THEN conjunct2, THEN conjunct2, THEN conjunct2,
     THEN conjunct2, THEN conjunct2, THEN conjunct2, THEN conjunct2, THEN conjunct2,
     THEN conjunct2, THEN conjunct2, THEN conjunct2, THEN conjunct2, THEN conjunct2,
     THEN conjunct2, THEN mp, OF n1]
  have n2: "cantIdDev bench \<lparr>up = False\<rparr> '''' '''' =
       Inr (\<lparr>content = False, err = CLIENTINITIALIZTIONFAILURE\<rparr>, [])"
    using n_not_up [THEN conjunct1] by (simp add: bench_simps)
  \<comment> \<open>the empty name, which resolves to no device\<close>
  note inst_e = devname_forwarded_as_c_str [of bench "''''" "''''" "\<lparr>up = True\<rparr>"]
  note e_from10 = inst_e
    [THEN conjunct2, THEN conjunct2, THEN conjunct2, THEN conjunct2, THEN conjunct2,
     THEN conjunct2, THEN conjunct2, THEN conjunct2, THEN conjunct2]
  note e_from14 = e_from10 [THEN conjunct2, THEN conjunct2, THEN conjunct2, THEN conjunct2]
  have e1: "CHR 0x00 \<notin> set ''''" by simp
  have e2: "c_str '''' = ''''"
    by (rule inst_e [THEN conjunct2, THEN conjunct1, THEN mp, OF e1])
  have e3: "get_smart_device bench (c_str '''')
      (if '''' \<noteq> '''' then Some (c_str '''') else None) = None"
    by (simp add: bench_simps c_str_def)
  note e_null = e_from10 [THEN conjunct1, THEN mp, THEN mp, OF u e3]
  have e4: "cantIdDev bench \<lparr>up = True\<rparr> '''' '''' =
         Inr (\<lparr>content = False, err = GETDEVICERR\<rparr>, [Get_smart_device '''' None])"
    using e_null [THEN conjunct1] by (simp add: bench_simps c_str_def)
  have e5: "getDevInfo bench \<lparr>up = True\<rparr> '''' '''' =
         Inr (\<lparr>content = [], err = GETDEVICERR\<rparr>, [Get_smart_device '''' None])"
    using e_null [THEN conjunct2, THEN conjunct1] by (simp add: bench_simps c_str_def)
  have e6: "getDevVendorAttrs bench \<lparr>up = True\<rparr> '''' '''' =
         Inr (\<lparr>content = [], err = GETDEVICERR\<rparr>, [Get_smart_device '''' None])"
    using e_null [THEN conjunct2, THEN conjunct2] by (simp add: bench_simps c_str_def)
  have e7: "err \<lparr>content = False, err = GETDEVICERR\<rparr>
       \<in> {NOERR, GETDEVICERR, UNSUPPORTEDDEVICETYPE, CLIENTINITIALIZTIONFAILURE}"
    by (rule e_from14 [THEN conjunct1, THEN spec, THEN spec, THEN mp, OF e4])
  have e8a: "\<forall>a opts. Get_ata_information a opts \<notin>
       set [Get_smart_device '''' None :: (nat, nat) call]"
    by simp
  have e8: "err \<lparr>content = [] :: (string \<times> string) list, err = GETDEVICERR\<rparr>
       \<in> {GETDEVICERR, DEVICEOPENERR, UNSUPPORTEDDEVICETYPE, CLIENTINITIALIZTIONFAILURE}"
    by (rule e_from14
        [THEN conjunct2, THEN conjunct1, THEN spec, THEN spec, THEN mp, THEN mp, OF e5 e8a])
  have e9a: "\<forall>a opts. Get_ata_vendor_attr a opts \<notin>
       set [Get_smart_device '''' None :: (nat, nat) call]"
    by simp
  have e9: "err \<lparr>content = [] :: (string \<times> string) list list, err = GETDEVICERR\<rparr>
       \<in> {GETDEVICERR, DEVICEOPENERR, UNSUPPORTEDDEVICETYPE, CLIENTINITIALIZTIONFAILURE}"
    by (rule e_from14
        [THEN conjunct2, THEN conjunct2, THEN conjunct1, THEN spec, THEN spec, THEN mp, THEN mp,
         OF e6 e9a])
  \<comment> \<open>a name that resolves to a device that does not open\<close>
  note inst_b = devname_forwarded_as_c_str
    [of bench "''/dev/sdb''" "''ata''" "\<lparr>up = True\<rparr>" "''/dev/sdb''" "2::nat"]
  note b_from6 = inst_b
    [THEN conjunct2, THEN conjunct2, THEN conjunct2, THEN conjunct2, THEN conjunct2]
  note b_from9 = b_from6 [THEN conjunct2, THEN conjunct2, THEN conjunct2]
  have b1: "CHR 0x00 \<notin> set ''/dev/sdb''" by simp
  have b2: "c_str ''/dev/sdb'' = ''/dev/sdb''"
    by (rule inst_b [THEN conjunct2, THEN conjunct1, THEN mp, OF b1])
  have b3: "CHR 0x00 \<notin> set ''ata''" by simp
  have b4: "c_str ''ata'' = ''ata''"
    by (rule inst_b [THEN conjunct2, THEN conjunct2, THEN conjunct1, THEN mp, OF b3])
  have b5: "get_smart_device bench (c_str ''/dev/sdb'')
        (if ''ata'' \<noteq> '''' then Some (c_str ''ata'') else None) = Some 2"
    by (simp add: bench_simps c_str_def)
  have b6: "\<not> is_open bench (autodetect_open bench 2)"
    by (simp add: bench_simps)
  from b5 b6
  have b7a: "\<exists>d. get_smart_device bench (c_str ''/dev/sdb'')
              (if ''ata'' \<noteq> '''' then Some (c_str ''ata'') else None) = Some d
            \<and> \<not> is_open bench (autodetect_open bench d)"
    by blast
  have b7: "fst (fst (initDevice bench ''/dev/sdb'' ''ata'')) = DEVICEOPENERR"
    by (rule b_from6 [THEN conjunct1, THEN iffD2, OF b7a])
  note b_not_open = b_from9
    [THEN conjunct2, THEN conjunct2, THEN conjunct1, THEN mp, THEN mp, THEN mp, OF u b5 b6]
  have b8: "cantIdDev bench \<lparr>up = True\<rparr> ''/dev/sdb'' ''ata'' =
       Inr (\<lparr>content = True, err = NOERR\<rparr>,
            [Get_smart_device ''/dev/sdb'' (Some ''ata''), Autodetect_open 2, Is_open 2])"
    using b_not_open [THEN conjunct1] by (simp add: bench_simps c_str_def)
  have b9: "getDevInfo bench \<lparr>up = True\<rparr> ''/dev/sdb'' ''ata'' =
       Inr (\<lparr>content = [], err = DEVICEOPENERR\<rparr>,
            [Get_smart_device ''/dev/sdb'' (Some ''ata''), Autodetect_open 2, Is_open 2])"
    using b_not_open [THEN conjunct2, THEN conjunct1] by (simp add: bench_simps c_str_def)
  have b10: "getDevVendorAttrs bench \<lparr>up = True\<rparr> ''/dev/sdb'' ''ata'' =
       Inr (\<lparr>content = [], err = DEVICEOPENERR\<rparr>,
            [Get_smart_device ''/dev/sdb'' (Some ''ata''), Autodetect_open 2, Is_open 2])"
    using b_not_open [THEN conjunct2, THEN conjunct2] by (simp add: bench_simps c_str_def)
  have b11: "\<exists>r rest. getDevInfo bench \<lparr>up = True\<rparr> ''/dev/sdb'' ''ata'' =
         Inr (r, snd (initDevice bench ''/dev/sdb'' ''ata'') @ rest)"
    by (rule b_from6
        [THEN conjunct2, THEN conjunct1, THEN mp, OF u, THEN conjunct2, THEN conjunct1])
  have b12: "\<exists>r rest. getDevInfo bench \<lparr>up = True\<rparr> ''/dev/sdb'' ''ata'' =
         Inr (r, Get_smart_device (c_str ''/dev/sdb'')
                   (if ''ata'' \<noteq> '''' then Some (c_str ''ata'') else None) # rest)"
    by (rule b_from9 [THEN conjunct1, THEN mp, OF u, THEN conjunct2, THEN conjunct1])
  \<comment> \<open>a name that resolves to a device that opens and is not ATA\<close>
  note inst_c = devname_forwarded_as_c_str
    [of bench "''/dev/sdc''" "''''" "\<lparr>up = True\<rparr>" "''/dev/sdc''" "4::nat"]
  note c_from9 = inst_c
    [THEN conjunct2, THEN conjunct2, THEN conjunct2, THEN conjunct2, THEN conjunct2,
     THEN conjunct2, THEN conjunct2, THEN conjunct2]
  have c1: "get_smart_device bench (c_str ''/dev/sdc'')
        (if '''' \<noteq> '''' then Some (c_str '''') else None) = Some 4"
    by (simp add: bench_simps c_str_def)
  have c2: "is_open bench (autodetect_open bench 4)" by (simp add: bench_simps)
  have c3: "\<not> is_ata bench (autodetect_open bench 4)" by (simp add: bench_simps)
  note c_not_ata = c_from9
    [THEN conjunct2, THEN conjunct2, THEN conjunct2, THEN conjunct1,
     THEN mp, THEN mp, THEN mp, THEN mp, OF u c1 c2 c3]
  have c4: "cantIdDev bench \<lparr>up = True\<rparr> ''/dev/sdc'' '''' =
       Inr (\<lparr>content = False, err = UNSUPPORTEDDEVICETYPE\<rparr>,
            [Get_smart_device ''/dev/sdc'' None, Autodetect_open 4, Is_open 5, Is_ata 5])"
    using c_not_ata [THEN conjunct1] by (simp add: bench_simps c_str_def)
  \<comment> \<open>an ATA disk, and the same name with a NUL and more behind it\<close>
  note inst_d = devname_forwarded_as_c_str
    [of bench "''/dev/sda''" "''''" "\<lparr>up = True\<rparr>" "''/dev/sda'' @ [CHR 0x00, CHR ''x'']" "0::nat"]
  note d_from8 = inst_d
    [THEN conjunct2, THEN conjunct2, THEN conjunct2, THEN conjunct2, THEN conjunct2,
     THEN conjunct2, THEN conjunct2]
  have d1: "get_smart_device bench (c_str ''/dev/sda'')
        (if '''' \<noteq> '''' then Some (c_str '''') else None) = Some 0"
    by (simp add: bench_simps c_str_def)
  have d2: "is_open bench (autodetect_open bench 0)" by (simp add: bench_simps)
  have d3: "is_ata bench (autodetect_open bench 0)" by (simp add: bench_simps)
  note d_ata = d_from8
    [THEN conjunct2, THEN conjunct2, THEN conjunct2, THEN conjunct2, THEN conjunct2,
     THEN conjunct1, THEN mp, THEN mp, THEN mp, THEN mp, OF u d1 d2 d3]
  have d4: "cantIdDev bench \<lparr>up = True\<rparr> ''/dev/sda'' '''' =
       Inr (\<lparr>content = True, err = NOERR\<rparr>,
            [Get_smart_device ''/dev/sda'' None, Autodetect_open 0, Is_open 1,
             Is_ata 1, To_ata 1, Cant_id 11])"
    using d_ata [THEN conjunct1] by (simp add: bench_simps c_str_def)
  have d5: "getDevInfo bench \<lparr>up = True\<rparr> ''/dev/sda'' '''' =
       Inr (\<lparr>content = [(''model'', ''unknown'')], err = FAILEDSMARTCMD\<rparr>,
            [Get_smart_device ''/dev/sda'' None, Autodetect_open 0, Is_open 1, Is_ata 1, To_ata 1,
             Get_ata_information 11 \<lparr>drive_info = True, smart_vendor_attrib = False\<rparr>])"
    using d_ata [THEN conjunct2, THEN conjunct1] by (simp add: bench_simps c_str_def)
  have d6: "c_str (''/dev/sda'' @ [CHR 0x00, CHR ''x'']) = c_str ''/dev/sda''"
    by (simp add: c_str_def)
  note d_same = d_from8 [THEN conjunct1, THEN mp, OF d6]
  have d7: "cantIdDev bench \<lparr>up = True\<rparr> (''/dev/sda'' @ [CHR 0x00, CHR ''x'']) '''' =
       cantIdDev bench \<lparr>up = True\<rparr> ''/dev/sda'' ''''"
    by (rule d_same [THEN conjunct1])
  have d8: "getDevInfo bench \<lparr>up = True\<rparr> (''/dev/sda'' @ [CHR 0x00, CHR ''x'']) '''' =
       getDevInfo bench \<lparr>up = True\<rparr> ''/dev/sda'' ''''"
    by (rule d_same [THEN conjunct2, THEN conjunct1])
  have d9: "getDevVendorAttrs bench \<lparr>up = True\<rparr> (''/dev/sda'' @ [CHR 0x00, CHR ''x'']) '''' =
       getDevVendorAttrs bench \<lparr>up = True\<rparr> ''/dev/sda'' ''''"
    by (rule d_same [THEN conjunct2, THEN conjunct2])
  show ?thesis
    by (intro conjI n1 n2 e1 e2 u e3 e4 e5 e6 e7 e8 e9 b1 b2 b3 b4 b5 b6 b7 b8 b9 b10 b11 b12
        c1 c2 c3 c4 d1 d2 d3 d4 d5 d6 d7 d8 d9)
qed

text \<open>
  The statement of C10 as written, that every name reaches \<open>get_smart_device\<close> unchanged,
  fails for a name with a NUL inside: the name \<^verbatim>\<open>/dev/sda\<close> followed by a NUL and an
  \<^verbatim>\<open>x\<close> is not the name \<^verbatim>\<open>/dev/sda\<close>, yet \<open>get_smart_device\<close> is called on \<^verbatim>\<open>/dev/sda\<close>
  and the disk of that name is opened.
\<close>

theorem devname_forwarded_unchanged_counterexample:
  "initDevice bench (''/dev/sda'' @ [CHR 0x00, CHR ''x'']) '''' =
     ((NOERR, Some 1), [Get_smart_device ''/dev/sda'' None, Autodetect_open 0, Is_open 1])
   \<and> ''/dev/sda'' \<noteq> ''/dev/sda'' @ [CHR 0x00, CHR ''x'']"
  by (simp add: initDevice_def c_str_def bench_simps)

end
